theory Spec2Isabelle
  imports Complex_Main
begin

section \<open>The order-placement screen (src/app/place-order.tsx)\<close>

subsection \<open>JavaScript numbers\<close>

text \<open>
  A JavaScript \<^verbatim>\<open>number\<close> is an IEEE double: NaN, one of the two infinities, or a
  finite value. Every finite double is a rational number, so the finite values are
  embedded in \<^typ>\<open>rat\<close>; what is proved for every rational holds for every double.
  The screen never does arithmetic on a coordinate: it only compares coordinates with
  the constants \<open>-90\<close>, \<open>90\<close>, \<open>-180\<close>, \<open>180\<close> (all of them doubles) and formats
  them, and ECMAScript defines both on the mathematical value.
\<close>

datatype jsnum = NaN | Fin rat | PosInfinity | NegInfinity

text \<open>\<^verbatim>\<open>isNaN(x)\<close> on a number.\<close>

definition isNaN :: "jsnum \<Rightarrow> bool" where
  "isNaN x = (x = NaN)"

text \<open>\<^verbatim>\<open>a <= b\<close> and \<^verbatim>\<open>a >= b\<close>: false as soon as one side is NaN.\<close>

fun js_le :: "jsnum \<Rightarrow> jsnum \<Rightarrow> bool" where
  "js_le NaN b = False"
| "js_le a NaN = False"
| "js_le NegInfinity b = True"
| "js_le a PosInfinity = True"
| "js_le (Fin a) (Fin b) = (a \<le> b)"
| "js_le PosInfinity b = False"
| "js_le a NegInfinity = False"

definition js_ge :: "jsnum \<Rightarrow> jsnum \<Rightarrow> bool" where
  "js_ge a b = js_le b a"

text \<open>A number in a boolean position (\<^verbatim>\<open>lat && ...\<close>): falsy for \<open>0\<close> and NaN.\<close>

definition truthy_num :: "jsnum \<Rightarrow> bool" where
  "truthy_num x = (x \<noteq> NaN \<and> x \<noteq> Fin 0)"

subsection \<open>Coordinate validation\<close>

text \<open>
  \<^verbatim>\<open>
  const validateCoordinates = (lat: number, lng: number): boolean => {
    return (!isNaN(lat) && !isNaN(lng) &&
            lat >= -90 && lat <= 90 && lng >= -180 && lng <= 180);
  };
  \<close>
\<close>

definition validateCoordinates :: "jsnum \<Rightarrow> jsnum \<Rightarrow> bool" where
  "validateCoordinates lat lng =
     (\<not> isNaN lat \<and> \<not> isNaN lng \<and>
      js_ge lat (Fin (- 90)) \<and> js_le lat (Fin 90) \<and>
      js_ge lng (Fin (- 180)) \<and> js_le lng (Fin 180))"

subsection \<open>Strings\<close>

text \<open>
  A string is a list of code units; a \<^typ>\<open>char\<close> stands for the code unit with the
  same number, so the strings of the model are the JavaScript strings whose code units
  are below 256. An empty string is falsy, every other string is truthy.
\<close>

text \<open>
  The white space that \<^verbatim>\<open>String.prototype.trim\<close> and \<^verbatim>\<open>parseFloat\<close> strip, among
  the code units below 256: tab, line feed, vertical tab, form feed, carriage return,
  space and no-break space.
\<close>

definition isWhiteSpace :: "char \<Rightarrow> bool" where
  "isWhiteSpace c = (of_char c \<in> {9, 10, 11, 12, 13, 32, 160 :: nat})"

definition trim :: "string \<Rightarrow> string" where
  "trim s = rev (dropWhile isWhiteSpace (rev (dropWhile isWhiteSpace s)))"

text \<open>\<^verbatim>\<open>parts.join(sep)\<close>.\<close>

fun join :: "string \<Rightarrow> string list \<Rightarrow> string" where
  "join sep [] = []"
| "join sep [x] = x"
| "join sep (x # y # ys) = x @ sep @ join sep (y # ys)"

text \<open>
  \<^verbatim>\<open>[...].filter(Boolean)\<close> on values of type \<^verbatim>\<open>string | null\<close>: \<^verbatim>\<open>null\<close> and the
  empty string are dropped.
\<close>

fun filterBoolean :: "string option list \<Rightarrow> string list" where
  "filterBoolean [] = []"
| "filterBoolean (None # ps) = filterBoolean ps"
| "filterBoolean (Some p # ps) = (if p = [] then filterBoolean ps else p # filterBoolean ps)"

text \<open>\<^verbatim>\<open>s.includes(sub)\<close>.\<close>

fun includes_str :: "string \<Rightarrow> string \<Rightarrow> bool" where
  "includes_str [] sub = (sub = [])"
| "includes_str (c # cs) sub = (take (length sub) (c # cs) = sub \<or> includes_str cs sub)"

text \<open>The decimal digits of a natural number, and an integer in a template literal.\<close>

fun digits :: "nat \<Rightarrow> string" where
  "digits n = (if n < 10 then [''0123456789'' ! n]
               else digits (n div 10) @ [''0123456789'' ! (n mod 10)])"

definition intToString :: "int \<Rightarrow> string" where
  "intToString i = (if i < 0 then ''-'' @ digits (nat (- i)) else digits (nat i))"

subsection \<open>The functions of the runtime\<close>

text \<open>
  Three functions of the JavaScript runtime round to a double or depend on the locale,
  which the embedding of numbers in \<^typ>\<open>rat\<close> does not define. The model takes them
  as parameters, and every general theorem below holds for all of them:
  \<^item> \<open>finToString\<close>: \<^verbatim>\<open>Number.prototype.toString\<close> on a finite number;
  \<^item> \<open>parseFloat\<close>: the global \<^verbatim>\<open>parseFloat\<close>;
  \<^item> \<open>toLocaleString\<close>: \<^verbatim>\<open>Number.prototype.toLocaleString\<close> on an amount.
\<close>

record runtime =
  finToString :: "rat \<Rightarrow> string"
  parseFloat :: "string \<Rightarrow> jsnum"
  toLocaleString :: "int \<Rightarrow> string"

text \<open>\<^verbatim>\<open>x.toString()\<close>: ECMAScript fixes the result on the values that are not finite.\<close>

definition numToString :: "runtime \<Rightarrow> jsnum \<Rightarrow> string" where
  "numToString rt x =
     (case x of
        NaN \<Rightarrow> ''NaN''
      | PosInfinity \<Rightarrow> ''Infinity''
      | NegInfinity \<Rightarrow> ''-Infinity''
      | Fin r \<Rightarrow> finToString rt r)"

text \<open>
  \<^verbatim>\<open>x.toFixed(f)\<close>, after ECMAScript's \<^verbatim>\<open>Number.prototype.toFixed\<close> (the screen calls it
  with \<open>f = 4\<close> and \<open>f = 6\<close>, inside the range where it does not throw). A value that
  is not finite is printed by \<^verbatim>\<open>toString\<close>. Otherwise the sign is split off; an absolute
  value of \<open>10\<^sup>2\<^sup>1\<close> or more is printed by \<^verbatim>\<open>toString\<close>; below that, \<open>n\<close> is the integer
  nearest to \<open>x * 10\<^sup>f\<close> (the larger one on a tie), its digits are padded with zeros to
  \<open>f + 1\<close> places and the point is put before the last \<open>f\<close> of them.
\<close>

definition toFixed :: "runtime \<Rightarrow> nat \<Rightarrow> jsnum \<Rightarrow> string" where
  "toFixed rt f x =
     (case x of
        Fin r \<Rightarrow>
          (let s = (if r < 0 then ''-'' else []);
               a = \<bar>r\<bar>
           in if 10 ^ 21 \<le> a then s @ finToString rt a
              else
                (let n = nat \<lfloor>a * 10 ^ f + 1 / 2\<rfloor>;
                     m = digits n;
                     m = replicate (f + 1 - length m) (CHR ''0'') @ m;
                     k = length m
                 in if f = 0 then s @ m
                    else s @ take (k - f) m @ ''.'' @ drop (k - f) m))
      | _ \<Rightarrow> numToString rt x)"

subsection \<open>A runtime for examples\<close>

text \<open>
  To run the model on concrete inputs, a runtime that reads and prints plain decimal
  notation exactly. \<open>parseFloatExact\<close> follows the grammar of \<^verbatim>\<open>parseFloat\<close> (leading
  white space, a sign, \<^verbatim>\<open>Infinity\<close> or digits with an optional fraction and exponent,
  the longest such prefix, NaN when there is none) and returns the exact value where
  JavaScript returns the nearest double. \<open>printExact\<close> prints the integer part and up to
  twenty fractional digits; for a decimal of at most fifteen significant digits between
  \<open>10\<^sup>-\<^sup>6\<close> and \<open>10\<^sup>2\<^sup>1\<close>, such as \<open>0.3\<close>, \<open>32.6\<close> or \<open>1\<close>, this is what
  \<^verbatim>\<open>toString\<close> prints for the double nearest to it.
\<close>

definition isDigit :: "char \<Rightarrow> bool" where
  "isDigit c = (48 \<le> (of_char c :: nat) \<and> (of_char c :: nat) \<le> 57)"

definition digitsValue :: "string \<Rightarrow> nat" where
  "digitsValue ds = foldl (\<lambda>a c. 10 * a + (of_char c - 48)) 0 ds"

fun stripSign :: "string \<Rightarrow> bool \<times> string" where
  "stripSign [] = (False, [])"
| "stripSign (c # cs) =
     (if c = CHR ''-'' then (True, cs) else if c = CHR ''+'' then (False, cs) else (False, c # cs))"

definition exponentPart :: "string \<Rightarrow> int" where
  "exponentPart s =
     (case s of
        [] \<Rightarrow> 0
      | c # cs \<Rightarrow>
          if c = CHR ''e'' \<or> c = CHR ''E'' then
            (let (neg, r) = stripSign cs; ds = takeWhile isDigit r
             in if ds = [] then 0
                else if neg then - int (digitsValue ds) else int (digitsValue ds))
          else 0)"

definition parseFloatExact :: "string \<Rightarrow> jsnum" where
  "parseFloatExact str =
     (let (neg, u) = stripSign (dropWhile isWhiteSpace str)
      in if take 8 u = ''Infinity'' then (if neg then NegInfinity else PosInfinity)
         else
           (let ip = takeWhile isDigit u;
                r1 = dropWhile isDigit u;
                (fp, r2) = (case r1 of
                              [] \<Rightarrow> ([], [])
                            | c # cs \<Rightarrow>
                                if c = CHR ''.'' then (takeWhile isDigit cs, dropWhile isDigit cs)
                                else ([], r1))
            in if ip = [] \<and> fp = [] then NaN
               else
                 (let m = of_nat (digitsValue ip) + of_nat (digitsValue fp) / 10 ^ length fp;
                      e = exponentPart r2;
                      v = (if 0 \<le> e then m * 10 ^ nat e else m / 10 ^ nat (- e))
                  in Fin (if neg then - v else v))))"

fun fractionDigits :: "nat \<Rightarrow> rat \<Rightarrow> string" where
  "fractionDigits 0 r = []"
| "fractionDigits (Suc k) r =
     (if r = 0 then []
      else (let d = nat \<lfloor>r * 10\<rfloor> in (''0123456789'' ! d) # fractionDigits k (r * 10 - of_nat d)))"

definition printExact :: "rat \<Rightarrow> string" where
  "printExact r =
     (let a = \<bar>r\<bar>;
          i = nat \<lfloor>a\<rfloor>;
          fr = fractionDigits 20 (a - of_nat i)
      in (if r < 0 then ''-'' else []) @ digits i @ (if fr = [] then [] else ''.'' @ fr))"

definition exactRuntime :: runtime where
  "exactRuntime = \<lparr>finToString = printExact, parseFloat = parseFloatExact, toLocaleString = intToString\<rparr>"

subsection \<open>The data of the screen\<close>

text \<open>
  \<^verbatim>\<open>MapRegion\<close> has the two fields of a coordinate and the two zoom spans; the marker's
  \<^verbatim>\<open>selectedLocation\<close> is a coordinate.
\<close>

record coordinate =
  latitude :: jsnum
  longitude :: jsnum

record MapRegion = coordinate +
  latitudeDelta :: jsnum
  longitudeDelta :: jsnum

text \<open>
  \<^verbatim>\<open>GasCylinder\<close> is declared in \<^verbatim>\<open>services/api\<close>; the fields below are the ones the
  logic of the screen reads (the others are only rendered). \<^verbatim>\<open>CartItem\<close> extends it with
  a quantity. Prices and quantities are whole numbers, far below \<open>2\<^sup>5\<^sup>3\<close>, where the
  arithmetic of doubles is the arithmetic of integers.
\<close>

record GasCylinder =
  id' :: string
  price :: int
  stockQuantity :: int
  isAvailable :: bool

record CartItem = GasCylinder +
  quantity :: int

text \<open>\<^verbatim>\<open>{ ...cylinder, quantity: q }\<close>\<close>

definition cartItem :: "GasCylinder \<Rightarrow> int \<Rightarrow> CartItem" where
  "cartItem cylinder q =
     \<lparr>id' = id' cylinder, price = price cylinder, stockQuantity = stockQuantity cylinder,
      isAvailable = isAvailable cylinder, quantity = q\<rparr>"

text \<open>The first result of the reverse geocoder: each part is a string or \<^verbatim>\<open>null\<close>.\<close>

record LocationGeocodedAddress =
  name :: "string option"
  street :: "string option"
  city :: "string option"
  region :: "string option"
  postalCode :: "string option"
  country :: "string option"

text \<open>The state of \<^verbatim>\<open>PlaceOrderScreen\<close>: one field for each \<^verbatim>\<open>useState\<close>.\<close>

record screen =
  cylinders :: "GasCylinder list"
  cart :: "CartItem list"
  deliveryAddress :: string
  deliveryLat :: string
  deliveryLng :: string
  instructions :: string
  loading :: bool
  error :: string
  showMap :: bool
  mapRegion :: MapRegion
  selectedLocation :: coordinate
  locationPermission :: bool
  mapError :: bool
  mapReady :: bool

text \<open>
  What a handler does besides updating the state: an alert (title, message, the texts
  of its buttons; no button given means the default one), a line on the console (the
  fixed text of the message), a navigation, the call of the order API.
\<close>

datatype CreateOrderPayload =
  CreateOrderPayload
    string \<comment> \<open>customerId\<close>
    "(string \<times> int) list" \<comment> \<open>items: cylinderId, quantity\<close>
    string \<comment> \<open>deliveryAddress\<close>
    jsnum \<comment> \<open>deliveryLatitude\<close>
    jsnum \<comment> \<open>deliveryLongitude\<close>
    "string option" \<comment> \<open>specialInstructions\<close>

datatype effect =
  Alert string string "string list"
| ConsoleWarn string
| ConsoleLog string
| ConsoleError string
| RouterPush string
| ApiCreateOrder CreateOrderPayload

text \<open>The results of the awaited calls: each one resolves or rejects.\<close>

datatype permission_outcome = PermissionRejected | PermissionStatus string

datatype position_outcome = PositionRejected | PositionCoords jsnum jsnum

datatype geocode_outcome = GeocodeRejected | GeocodeResults "LocationGeocodedAddress list"

datatype 'a api_outcome = ApiRejected "string option" | ApiResolved 'a

record OrderResponse =
  orderNumber :: string
  totalAmount :: int

text \<open>
  \<^verbatim>\<open>useAuth()\<close>: the user's id when there is a user, and the token. The context is not
  part of these sources; the screen reads \<^verbatim>\<open>user.id\<close>, \<^verbatim>\<open>user.address\<close>,
  \<^verbatim>\<open>user.latitude\<close>, \<^verbatim>\<open>user.longitude\<close> and \<^verbatim>\<open>token\<close>.
\<close>

record AuthContext =
  userId :: "string option"
  token :: "string option"

definition truthy_token :: "string option \<Rightarrow> bool" where
  "truthy_token t = (case t of None \<Rightarrow> False | Some v \<Rightarrow> v \<noteq> [])"

subsection \<open>The initial state\<close>

text \<open>
  The initialisers of \<^verbatim>\<open>useState\<close>, from \<^verbatim>\<open>user?.address\<close>, \<^verbatim>\<open>user?.latitude\<close> and
  \<^verbatim>\<open>user?.longitude\<close> (\<open>None\<close> when there is no user or the field is undefined):
  \<^verbatim>\<open>
  useState(user?.address || '')
  useState(() => { const lat = user?.latitude;
                   return (lat && !isNaN(lat)) ? lat.toString() : ''; })
  latitude: (lat && !isNaN(lat)) ? lat : 0.3476, // Kampala coordinates
  longitude: (lng && !isNaN(lng)) ? lng : 32.5825,
  latitudeDelta: 0.0922, longitudeDelta: 0.0421
  \<close>
\<close>

definition seedText :: "runtime \<Rightarrow> jsnum option \<Rightarrow> string" where
  "seedText rt v =
     (case v of
        None \<Rightarrow> []
      | Some x \<Rightarrow> if truthy_num x \<and> \<not> isNaN x then numToString rt x else [])"

definition seedNumber :: "jsnum option \<Rightarrow> jsnum \<Rightarrow> jsnum" where
  "seedNumber v d =
     (case v of
        None \<Rightarrow> d
      | Some x \<Rightarrow> if truthy_num x \<and> \<not> isNaN x then x else d)"

definition initialScreen ::
  "runtime \<Rightarrow> string option \<Rightarrow> jsnum option \<Rightarrow> jsnum option \<Rightarrow> screen" where
  "initialScreen rt addr lat lng =
     \<lparr>cylinders = [],
      cart = [],
      deliveryAddress = (case addr of None \<Rightarrow> [] | Some a \<Rightarrow> a),
      deliveryLat = seedText rt lat,
      deliveryLng = seedText rt lng,
      instructions = [],
      loading = False,
      error = [],
      showMap = False,
      mapRegion =
        \<lparr>latitude = seedNumber lat (Fin 0.3476),
         longitude = seedNumber lng (Fin 32.5825),
         latitudeDelta = Fin 0.0922,
         longitudeDelta = Fin 0.0421\<rparr>,
      selectedLocation =
        \<lparr>latitude = seedNumber lat (Fin 0.3476),
         longitude = seedNumber lng (Fin 32.5825)\<rparr>,
      locationPermission = False,
      mapError = False,
      mapReady = False\<rparr>"

subsection \<open>Updating the map region\<close>

text \<open>
  \<^verbatim>\<open>
  const updateMapRegion = (latitude: number, longitude: number) => {
    if (validateCoordinates(latitude, longitude)) {
      setMapRegion({ latitude, longitude, latitudeDelta: 0.0922, longitudeDelta: 0.0421 });
      setSelectedLocation({ latitude, longitude });
    } else {
      console.warn('Invalid coordinates provided to updateMapRegion:', latitude, longitude);
      // Fallback to Kampala coordinates
      setMapRegion({ latitude: 0.3476, longitude: 32.5825,
                     latitudeDelta: 0.0922, longitudeDelta: 0.0421 });
      setSelectedLocation({ latitude: 0.3476, longitude: 32.5825 });
    }
  };
  \<close>
\<close>

definition updateMapRegion :: "jsnum \<Rightarrow> jsnum \<Rightarrow> screen \<Rightarrow> screen \<times> effect list" where
  "updateMapRegion lat lng s =
     (if validateCoordinates lat lng then
        (s\<lparr>mapRegion := \<lparr>latitude = lat, longitude = lng,
                          latitudeDelta = Fin 0.0922, longitudeDelta = Fin 0.0421\<rparr>,
           selectedLocation := \<lparr>latitude = lat, longitude = lng\<rparr>\<rparr>,
         [])
      else
        (s\<lparr>mapRegion := \<lparr>latitude = Fin 0.3476, longitude = Fin 32.5825,
                          latitudeDelta = Fin 0.0922, longitudeDelta = Fin 0.0421\<rparr>,
           selectedLocation := \<lparr>latitude = Fin 0.3476, longitude = Fin 32.5825\<rparr>\<rparr>,
         [ConsoleWarn ''Invalid coordinates provided to updateMapRegion:'']))"

subsection \<open>The position fix requested when the screen mounts\<close>

text \<open>
  \<^verbatim>\<open>
  const requestLocationPermission = async () => {
    try {
      const { status } = await Location.requestForegroundPermissionsAsync();
      setLocationPermission(status === 'granted');
      if (status === 'granted') {
        try {
          const location = await Location.getCurrentPositionAsync({...});
          const { latitude, longitude } = location.coords;
          if (validateCoordinates(latitude, longitude)) {
            updateMapRegion(latitude, longitude);
            // Auto-fill coordinates if not already set
            if (!deliveryLat || !deliveryLng) {
              setDeliveryLat(latitude.toString());
              setDeliveryLng(longitude.toString());
            }
          } else {
            console.warn('Invalid coordinates from getCurrentPositionAsync:', ...);
          }
        } catch (locationError) { console.log('Failed to get current location:', ...); }
      }
    } catch (error) {
      console.log('Location permission error:', error);
      setLocationPermission(false);
    }
  };
  \<close>
  The function runs in three pieces, separated by its two \<^verbatim>\<open>await\<close>s, and other handlers
  run in between. The setters write to the state that is current when they are called.
  The names \<^verbatim>\<open>deliveryLat\<close> and \<^verbatim>\<open>deliveryLng\<close> in the body are not read from that
  state: they are the constants of the render in which this function value was made
  (\<^verbatim>\<open>const [deliveryLat, setDeliveryLat] = useState(...)\<close>), whatever has been typed
  since. The model has
  \<^item> \<open>closure\<close>: the state of the render whose function value is running. The only
    call is in the effect with the empty dependency list,
    \<^verbatim>\<open>useEffect(() => { loadCylinders(); requestLocationPermission(); }, [])\<close>,
    which runs once, with the function value of the first render;
  \<^item> \<open>s\<close>: the state when the permission request resolves;
  \<^item> \<open>between\<close>: what the handlers that run while the position request is pending
    do to the state (the identity when nothing happens).
\<close>

definition requestLocationPermission ::
  "runtime \<Rightarrow> screen \<Rightarrow> permission_outcome \<Rightarrow> (screen \<Rightarrow> screen) \<Rightarrow> position_outcome \<Rightarrow>
   screen \<Rightarrow> screen \<times> effect list" where
  "requestLocationPermission rt closure perm between pos s =
     (case perm of
        PermissionRejected \<Rightarrow>
          (s\<lparr>locationPermission := False\<rparr>, [ConsoleLog ''Location permission error:''])
      | PermissionStatus status \<Rightarrow>
          (let s1 = s\<lparr>locationPermission := (status = ''granted'')\<rparr>
           in if status = ''granted'' then
                (let s2 = between s1
                 in case pos of
                      PositionRejected \<Rightarrow> (s2, [ConsoleLog ''Failed to get current location:''])
                    | PositionCoords lat lng \<Rightarrow>
                        if validateCoordinates lat lng then
                          (let (s3, es) = updateMapRegion lat lng s2
                           in if deliveryLat closure = [] \<or> deliveryLng closure = [] then
                                (s3\<lparr>deliveryLat := numToString rt lat,
                                    deliveryLng := numToString rt lng\<rparr>, es)
                              else (s3, es))
                        else
                          (s2, [ConsoleWarn ''Invalid coordinates from getCurrentPositionAsync:'']))
              else (s1, [])))"

text \<open>Typing into the two coordinate fields: \<^verbatim>\<open>onChangeText={setDeliveryLat}\<close>.\<close>

definition typeLatitude :: "string \<Rightarrow> screen \<Rightarrow> screen" where
  "typeLatitude t s = s\<lparr>deliveryLat := t\<rparr>"

definition typeLongitude :: "string \<Rightarrow> screen \<Rightarrow> screen" where
  "typeLongitude t s = s\<lparr>deliveryLng := t\<rparr>"

subsection \<open>Loading the inventory\<close>

text \<open>
  \<^verbatim>\<open>
  const loadCylinders = async () => {
    if (!token) return;
    setLoading(true);
    try {
      const data = await apiService.getAllGasCylinders(token);
      setCylinders(data.filter(c => c.isAvailable && c.stockQuantity > 0));
      setError('');
    } catch (err: any) {
      setError(err.message || 'Failed to load gas cylinders');
    } finally { setLoading(false); }
  };
  \<close>
  The state returned is the one after the request has settled (\<open>loading\<close> is true while
  it is pending).
\<close>

definition loadCylinders :: "string option \<Rightarrow> GasCylinder list api_outcome \<Rightarrow> screen \<Rightarrow> screen" where
  "loadCylinders tok res s =
     (if \<not> truthy_token tok then s
      else case res of
             ApiResolved data \<Rightarrow>
               s\<lparr>cylinders := filter (\<lambda>c. isAvailable c \<and> stockQuantity c > 0) data,
                 error := [],
                 loading := False\<rparr>
           | ApiRejected msg \<Rightarrow>
               s\<lparr>error := (case msg of
                             None \<Rightarrow> ''Failed to load gas cylinders''
                           | Some m \<Rightarrow> if m = [] then ''Failed to load gas cylinders'' else m),
                 loading := False\<rparr>)"

subsection \<open>Reverse geocoding\<close>

text \<open>
  \<^verbatim>\<open>
  const handleReverseGeocode = async (latitude: number, longitude: number) => {
    try {
      const results = await Location.reverseGeocodeAsync({ latitude, longitude });
      if (results && results.length > 0) {
        const result = results[0];
        const addressParts = [result.name, result.street, result.city, result.region,
                              result.postalCode, result.country].filter(Boolean);
        const address = addressParts.join(', ').trim();
        if (address && address.length > 0) { setDeliveryAddress(address); }
        else { setDeliveryAddress(`Lat: ${latitude.toFixed(4)}, Lng: ${longitude.toFixed(4)}`); }
      } else {
        setDeliveryAddress(`Lat: ${latitude.toFixed(4)}, Lng: ${longitude.toFixed(4)}`);
      }
    } catch (error) {
      console.log('Reverse geocoding failed:', error);
      setDeliveryAddress(`Lat: ${latitude.toFixed(4)}, Lng: ${longitude.toFixed(4)}`);
    }
  };
  \<close>
\<close>

definition latLngText :: "runtime \<Rightarrow> jsnum \<Rightarrow> jsnum \<Rightarrow> string" where
  "latLngText rt lat lng = ''Lat: '' @ toFixed rt 4 lat @ '', Lng: '' @ toFixed rt 4 lng"

definition handleReverseGeocode ::
  "runtime \<Rightarrow> jsnum \<Rightarrow> jsnum \<Rightarrow> geocode_outcome \<Rightarrow> screen \<Rightarrow> screen \<times> effect list" where
  "handleReverseGeocode rt lat lng geo s =
     (case geo of
        GeocodeRejected \<Rightarrow>
          (s\<lparr>deliveryAddress := latLngText rt lat lng\<rparr>, [ConsoleLog ''Reverse geocoding failed:''])
      | GeocodeResults results \<Rightarrow>
          (case results of
             [] \<Rightarrow> (s\<lparr>deliveryAddress := latLngText rt lat lng\<rparr>, [])
           | result # _ \<Rightarrow>
               (let addressParts =
                      filterBoolean [name result, street result, city result, region result,
                                     postalCode result, country result];
                    address = trim (join '', '' addressParts)
                in if address \<noteq> [] then (s\<lparr>deliveryAddress := address\<rparr>, [])
                   else (s\<lparr>deliveryAddress := latLngText rt lat lng\<rparr>, []))))"

subsection \<open>The button for the current location\<close>

text \<open>
  \<^verbatim>\<open>
  const getCurrentLocation = async () => {
    if (!locationPermission) { Alert.alert('Permission Required', ...); return; }
    try {
      const location = await Location.getCurrentPositionAsync({...});
      const { latitude, longitude } = location.coords;
      if (validateCoordinates(latitude, longitude)) {
        updateMapRegion(latitude, longitude);
        setDeliveryLat(latitude.toString());
        setDeliveryLng(longitude.toString());
        await handleReverseGeocode(latitude, longitude);
      } else { Alert.alert('Error', 'Invalid coordinates obtained ...'); }
    } catch (error) {
      Alert.alert('Error', 'Failed to get current location. Please ensure GPS is enabled.');
      console.error('getCurrentLocation error:', error);
    }
  };
  \<close>
\<close>

definition getCurrentLocation ::
  "runtime \<Rightarrow> position_outcome \<Rightarrow> geocode_outcome \<Rightarrow> screen \<Rightarrow> screen \<times> effect list" where
  "getCurrentLocation rt pos geo s =
     (if \<not> locationPermission s then
        (s, [Alert ''Permission Required''
               ''Location permission is required to get your current location'' []])
      else case pos of
             PositionRejected \<Rightarrow>
               (s, [Alert ''Error'' ''Failed to get current location. Please ensure GPS is enabled.'' [],
                    ConsoleError ''getCurrentLocation error:''])
           | PositionCoords lat lng \<Rightarrow>
               if validateCoordinates lat lng then
                 (let (s1, e1) = updateMapRegion lat lng s;
                      s2 = s1\<lparr>deliveryLat := numToString rt lat, deliveryLng := numToString rt lng\<rparr>;
                      (s3, e3) = handleReverseGeocode rt lat lng geo s2
                  in (s3, e1 @ e3))
               else
                 (s, [Alert ''Error''
                        ''Invalid coordinates obtained from current location. Please try again.'' []]))"

subsection \<open>A tap on the map\<close>

text \<open>
  \<^verbatim>\<open>
  const onMapPress = async (event: any) => {
    try {
      const { coordinate } = event.nativeEvent;
      if (!coordinate || !validateCoordinates(coordinate.latitude, coordinate.longitude)) {
        console.warn('Invalid map press coordinates');
        Alert.alert('Invalid Selection', 'Please tap on a valid location on the map.');
        return;
      }
      setSelectedLocation(coordinate);
      setDeliveryLat(coordinate.latitude.toString());
      setDeliveryLng(coordinate.longitude.toString());
      await handleReverseGeocode(coordinate.latitude, coordinate.longitude);
    } catch (error) {
      console.error('Map press error:', error);
      Alert.alert('Map Interaction Error', 'An error occurred while selecting location on map.');
    }
  };
  \<close>
  The event has no \<^verbatim>\<open>nativeEvent\<close> (the destructuring throws), or a \<^verbatim>\<open>nativeEvent\<close>
  with or without a coordinate, whose two fields are numbers.
\<close>

datatype map_press_event = NoNativeEvent | NativeEvent "coordinate option"

definition onMapPress ::
  "runtime \<Rightarrow> map_press_event \<Rightarrow> geocode_outcome \<Rightarrow> screen \<Rightarrow> screen \<times> effect list" where
  "onMapPress rt event geo s =
     (case event of
        NoNativeEvent \<Rightarrow>
          (s, [ConsoleError ''Map press error:'',
               Alert ''Map Interaction Error'' ''An error occurred while selecting location on map.'' []])
      | NativeEvent None \<Rightarrow>
          (s, [ConsoleWarn ''Invalid map press coordinates'',
               Alert ''Invalid Selection'' ''Please tap on a valid location on the map.'' []])
      | NativeEvent (Some c) \<Rightarrow>
          if \<not> validateCoordinates (latitude c) (longitude c) then
            (s, [ConsoleWarn ''Invalid map press coordinates'',
                 Alert ''Invalid Selection'' ''Please tap on a valid location on the map.'' []])
          else
            handleReverseGeocode rt (latitude c) (longitude c) geo
              (s\<lparr>selectedLocation := c,
                 deliveryLat := numToString rt (latitude c),
                 deliveryLng := numToString rt (longitude c)\<rparr>))"

subsection \<open>The cart\<close>

text \<open>
  \<^verbatim>\<open>
  const addToCart = (cylinder: GasCylinder) => {
    setCart(prev => {
      const existing = prev.find(item => item.id === cylinder.id);
      if (existing) {
        if (existing.quantity >= cylinder.stockQuantity) {
          Alert.alert('Stock Limit', `Only ${cylinder.stockQuantity} available`);
          return prev;
        }
        return prev.map(item =>
          item.id === cylinder.id ? { ...item, quantity: item.quantity + 1 } : item);
      }
      return [...prev, { ...cylinder, quantity: 1 }];
    });
  };
  \<close>
  The model is the function handed to \<^verbatim>\<open>setCart\<close>, with the alerts it raises.
\<close>

definition stockLimit :: "int \<Rightarrow> effect" where
  "stockLimit n = Alert ''Stock Limit'' (''Only '' @ intToString n @ '' available'') []"

definition addToCart :: "GasCylinder \<Rightarrow> CartItem list \<Rightarrow> CartItem list \<times> effect list" where
  "addToCart cylinder prev =
     (case List.find (\<lambda>item. id' item = id' cylinder) prev of
        Some existing \<Rightarrow>
          if quantity existing \<ge> stockQuantity cylinder then
            (prev, [stockLimit (stockQuantity cylinder)])
          else
            (map (\<lambda>item. if id' item = id' cylinder
                          then item\<lparr>quantity := quantity item + 1\<rparr> else item) prev,
             [])
      | None \<Rightarrow> (prev @ [cartItem cylinder 1], []))"

text \<open>
  \<^verbatim>\<open>
  const updateQuantity = (id: string, change: number) => {
    setCart(prev => {
      return prev
        .map(item => {
          if (item.id === id) {
            const newQuantity = item.quantity + change;
            if (newQuantity <= 0) return null;
            if (newQuantity > item.stockQuantity) {
              Alert.alert('Stock Limit', `Only ${item.stockQuantity} available`);
              return item;
            }
            return { ...item, quantity: newQuantity };
          }
          return item;
        })
        .filter(Boolean) as CartItem[];
    });
  };
  \<close>
  \<open>updateLine\<close> is the function mapped over the cart: the new line, or \<open>None\<close> for
  \<^verbatim>\<open>null\<close>, with the alerts raised for that line.
\<close>

definition updateLine :: "string \<Rightarrow> int \<Rightarrow> CartItem \<Rightarrow> CartItem option \<times> effect list" where
  "updateLine i change item =
     (if id' item = i then
        (let newQuantity = quantity item + change
         in if newQuantity \<le> 0 then (None, [])
            else if newQuantity > stockQuantity item then
              (Some item, [stockLimit (stockQuantity item)])
            else (Some (item\<lparr>quantity := newQuantity\<rparr>), []))
      else (Some item, []))"

fun filterNull :: "'a option list \<Rightarrow> 'a list" where
  "filterNull [] = []"
| "filterNull (None # xs) = filterNull xs"
| "filterNull (Some x # xs) = x # filterNull xs"

definition updateQuantity :: "string \<Rightarrow> int \<Rightarrow> CartItem list \<Rightarrow> CartItem list \<times> effect list" where
  "updateQuantity i change prev =
     (let rs = map (updateLine i change) prev
      in (filterNull (map fst rs), concat (map snd rs)))"

subsection \<open>The amounts shown\<close>

text \<open>
  \<^verbatim>\<open>
  const subtotal = cart.reduce((sum, item) => sum + (item.price * item.quantity), 0);
  const total = subtotal;
  \<close>
  and where they are rendered: the two rows of the summary, shown when the cart is not
  empty, and the text of the order button, shown when no request is pending.
  \<^verbatim>\<open>
  <Text>UGX {subtotal.toLocaleString()}</Text>
  <Text>UGX {total.toLocaleString()}</Text>
  <Text>Place Order - UGX {total.toLocaleString()}</Text>
  \<close>
\<close>

definition subtotal :: "screen \<Rightarrow> int" where
  "subtotal s = foldl (\<lambda>sum item. sum + price item * quantity item) 0 (cart s)"

definition total :: "screen \<Rightarrow> int" where
  "total s = subtotal s"

definition orderSummary :: "runtime \<Rightarrow> screen \<Rightarrow> (string \<times> string) option" where
  "orderSummary rt s =
     (if length (cart s) > 0 then
        Some (''UGX '' @ toLocaleString rt (subtotal s), ''UGX '' @ toLocaleString rt (total s))
      else None)"

definition orderBtnText :: "runtime \<Rightarrow> screen \<Rightarrow> string option" where
  "orderBtnText rt s =
     (if loading s then None else Some (''Place Order - UGX '' @ toLocaleString rt (total s)))"

subsection \<open>The submission gate\<close>

text \<open>
  \<^verbatim>\<open>
  const canPlaceOrder = () => {
    const lat = parseFloat(deliveryLat);
    const lng = parseFloat(deliveryLng);
    return cart.length > 0 && deliveryAddress.trim() && validateCoordinates(lat, lng) && !loading;
  };
  \<close>
  \<^verbatim>\<open>a && b\<close> is \<^verbatim>\<open>a\<close> when \<^verbatim>\<open>a\<close> is falsy and \<^verbatim>\<open>b\<close> otherwise, so the value returned
  is a boolean or, when the trimmed address is empty, that empty string.
\<close>

datatype jsval = JBool bool | JStr string

fun truthy :: "jsval \<Rightarrow> bool" where
  "truthy (JBool b) = b"
| "truthy (JStr v) = (v \<noteq> [])"

definition canPlaceOrder :: "runtime \<Rightarrow> screen \<Rightarrow> jsval" where
  "canPlaceOrder rt s =
     (let lat = parseFloat rt (deliveryLat s);
          lng = parseFloat rt (deliveryLng s)
      in if \<not> length (cart s) > 0 then JBool False
         else if \<not> truthy (JStr (trim (deliveryAddress s))) then JStr (trim (deliveryAddress s))
         else if \<not> validateCoordinates lat lng then JBool False
         else JBool (\<not> loading s))"

subsection \<open>Placing the order\<close>

text \<open>
  \<^verbatim>\<open>
  const placeOrder = async () => {
    if (!user || !token) { Alert.alert('Error', 'Please log in first'); return; }
    if (!canPlaceOrder()) { Alert.alert('Incomplete Order', '...'); return; }
    const lat = parseFloat(deliveryLat);
    const lng = parseFloat(deliveryLng);
    if (!validateCoordinates(lat, lng)) { Alert.alert('Invalid Coordinates', '...'); return; }
    setLoading(true);
    try {
      const orderData: CreateOrderPayload = {
        customerId: user.id.toString(),
        items: cart.map(item => ({ cylinderId: item.id.toString(),
                                   quantity: Number(item.quantity) })),
        deliveryAddress: deliveryAddress.trim(),
        deliveryLatitude: Number(lat),
        deliveryLongitude: Number(lng),
      };
      if (instructions.trim()) { orderData.specialInstructions = instructions.trim(); }
      const response = await apiService.createOrder(orderData, token);
      Alert.alert('Order Placed!',
        `Order #${response.orderNumber} placed successfully!\nTotal: UGX ${...}`,
        [ { text: 'View Orders', onPress: () => router.push('/orders') },
          { text: 'New Order',
            onPress: () => { setCart([]); setInstructions(''); loadCylinders(); } } ]);
    } catch (err: any) {
      console.error('Order placement error:', err);
      Alert.alert('Order Failed', err.message || 'Please try again');
      if (err.message?.includes('stock')) { loadCylinders(); }
    } finally { setLoading(false); }
  };
  \<close>
  \<open>res\<close> is the outcome of \<^verbatim>\<open>createOrder\<close> and \<open>reload\<close> the outcome of the inventory
  request made after a stock failure. The two buttons of the success alert are the
  handlers \<open>pressViewOrders\<close> and \<open>pressNewOrder\<close>.
\<close>

definition orderData :: "runtime \<Rightarrow> string \<Rightarrow> screen \<Rightarrow> CreateOrderPayload" where
  "orderData rt uid s =
     CreateOrderPayload uid
       (map (\<lambda>item. (id' item, quantity item)) (cart s))
       (trim (deliveryAddress s))
       (parseFloat rt (deliveryLat s))
       (parseFloat rt (deliveryLng s))
       (if trim (instructions s) \<noteq> [] then Some (trim (instructions s)) else None)"

definition orderPlacedAlert :: "runtime \<Rightarrow> OrderResponse \<Rightarrow> effect" where
  "orderPlacedAlert rt response =
     Alert ''Order Placed!''
       (''Order #'' @ orderNumber response @ '' placed successfully!'' @ [CHR 0x0A] @
        ''Total: UGX '' @ toLocaleString rt (totalAmount response))
       [''View Orders'', ''New Order'']"

definition placeOrder ::
  "runtime \<Rightarrow> AuthContext \<Rightarrow> OrderResponse api_outcome \<Rightarrow> GasCylinder list api_outcome \<Rightarrow>
   screen \<Rightarrow> screen \<times> effect list" where
  "placeOrder rt auth res reload s =
     (case userId auth of
        None \<Rightarrow> (s, [Alert ''Error'' ''Please log in first'' []])
      | Some uid \<Rightarrow>
          if \<not> truthy_token (token auth) then (s, [Alert ''Error'' ''Please log in first'' []])
          else if \<not> truthy (canPlaceOrder rt s) then
            (s, [Alert ''Incomplete Order'' ''Please fill all required fields and add items'' []])
          else if \<not> validateCoordinates (parseFloat rt (deliveryLat s)) (parseFloat rt (deliveryLng s))
          then (s, [Alert ''Invalid Coordinates'' ''Please enter valid latitude and longitude'' []])
          else
            (case res of
               ApiResolved response \<Rightarrow>
                 (s\<lparr>loading := False\<rparr>,
                  [ApiCreateOrder (orderData rt uid s), orderPlacedAlert rt response])
             | ApiRejected msg \<Rightarrow>
                 (let message = (case msg of None \<Rightarrow> [] | Some m \<Rightarrow> m);
                      s1 = (if includes_str message ''stock''
                            then loadCylinders (token auth) reload s else s)
                  in (s1\<lparr>loading := False\<rparr>,
                      [ApiCreateOrder (orderData rt uid s),
                       ConsoleError ''Order placement error:'',
                       Alert ''Order Failed''
                         (if message = [] then ''Please try again'' else message) []]))))"

definition pressViewOrders :: "screen \<Rightarrow> screen \<times> effect list" where
  "pressViewOrders s = (s, [RouterPush ''/orders''])"

definition pressNewOrder ::
  "string option \<Rightarrow> GasCylinder list api_outcome \<Rightarrow> screen \<Rightarrow> screen \<times> effect list" where
  "pressNewOrder tok reload s =
     (loadCylinders tok reload (s\<lparr>cart := [], instructions := []\<rparr>), [])"

subsection \<open>Requests in flight\<close>

text \<open>
  \<^verbatim>\<open>placeOrder\<close> and \<^verbatim>\<open>loadCylinders\<close> each run in two pieces, before and after their
  \<^verbatim>\<open>await\<close>, and other handlers run while a request is pending. Both raise the one flag
  \<^verbatim>\<open>loading\<close> before the request and lower it in their \<^verbatim>\<open>finally\<close>. To tell a pending
  submission from the flag, the running screen carries, beside its state, the number of
  \<^verbatim>\<open>createOrder\<close> requests and of inventory requests that have not settled yet.
\<close>

record running =
  current :: screen
  ordersInFlight :: nat
  loadsInFlight :: nat

text \<open>
  \<^verbatim>\<open>loadCylinders\<close> up to its \<^verbatim>\<open>await\<close> (\<^verbatim>\<open>if (!token) return; setLoading(true);\<close> and the
  request), and from the \<^verbatim>\<open>await\<close> on, for a request that is pending.
\<close>

definition loadCylindersStart :: "string option \<Rightarrow> running \<Rightarrow> running" where
  "loadCylindersStart tok w =
     (if \<not> truthy_token tok then w
      else w\<lparr>current := (current w)\<lparr>loading := True\<rparr>, loadsInFlight := loadsInFlight w + 1\<rparr>)"

definition loadCylindersSettle :: "GasCylinder list api_outcome \<Rightarrow> running \<Rightarrow> running" where
  "loadCylindersSettle res w =
     (if loadsInFlight w = 0 then w
      else
        w\<lparr>current :=
            (case res of
               ApiResolved data \<Rightarrow>
                 (current w)\<lparr>cylinders := filter (\<lambda>c. isAvailable c \<and> stockQuantity c > 0) data,
                             error := [],
                             loading := False\<rparr>
             | ApiRejected msg \<Rightarrow>
                 (current w)\<lparr>error := (case msg of
                                         None \<Rightarrow> ''Failed to load gas cylinders''
                                       | Some m \<Rightarrow>
                                           if m = [] then ''Failed to load gas cylinders'' else m),
                             loading := False\<rparr>),
          loadsInFlight := loadsInFlight w - 1\<rparr>)"


text \<open>
  \<^verbatim>\<open>placeOrder\<close> up to \<^verbatim>\<open>await apiService.createOrder(orderData, token)\<close>: the three
  checks, \<^verbatim>\<open>setLoading(true)\<close> and the request.
\<close>

definition placeOrderStart ::
  "runtime \<Rightarrow> AuthContext \<Rightarrow> running \<Rightarrow> running \<times> effect list" where
  "placeOrderStart rt auth w =
     (case userId auth of
        None \<Rightarrow> (w, [Alert ''Error'' ''Please log in first'' []])
      | Some uid \<Rightarrow>
          if \<not> truthy_token (token auth) then (w, [Alert ''Error'' ''Please log in first'' []])
          else if \<not> truthy (canPlaceOrder rt (current w)) then
            (w, [Alert ''Incomplete Order'' ''Please fill all required fields and add items'' []])
          else if \<not> validateCoordinates (parseFloat rt (deliveryLat (current w)))
                                          (parseFloat rt (deliveryLng (current w)))
          then (w, [Alert ''Invalid Coordinates'' ''Please enter valid latitude and longitude'' []])
          else
            (w\<lparr>current := (current w)\<lparr>loading := True\<rparr>,
               ordersInFlight := ordersInFlight w + 1\<rparr>,
             [ApiCreateOrder (orderData rt uid (current w))]))"

text \<open>
  \<^verbatim>\<open>placeOrder\<close> from the \<^verbatim>\<open>await\<close> on, for a submission that is pending: the alert, or
  the \<^verbatim>\<open>catch\<close> (which starts an inventory request after a stock failure and does not
  wait for it), and \<^verbatim>\<open>finally { setLoading(false); }\<close>.
\<close>

definition placeOrderSettle ::
  "runtime \<Rightarrow> AuthContext \<Rightarrow> OrderResponse api_outcome \<Rightarrow> running \<Rightarrow> running \<times> effect list" where
  "placeOrderSettle rt auth res w =
     (if ordersInFlight w = 0 then (w, [])
      else case res of
             ApiResolved response \<Rightarrow>
               (w\<lparr>current := (current w)\<lparr>loading := False\<rparr>,
                  ordersInFlight := ordersInFlight w - 1\<rparr>,
                [orderPlacedAlert rt response])
           | ApiRejected msg \<Rightarrow>
               (let message = (case msg of None \<Rightarrow> [] | Some m \<Rightarrow> m);
                    w1 = (if includes_str message ''stock''
                          then loadCylindersStart (token auth) w else w)
                in (w1\<lparr>current := (current w1)\<lparr>loading := False\<rparr>,
                       ordersInFlight := ordersInFlight w1 - 1\<rparr>,
                    [ConsoleError ''Order placement error:'',
                     Alert ''Order Failed''
                       (if message = [] then ''Please try again'' else message) []])))"

text \<open>
  A whole run of \<^verbatim>\<open>placeOrder\<close> with nothing in between: the start, the end of the
  submission if one was started, and the end of the inventory request if one was started.
\<close>

definition placeOrderRun ::
  "runtime \<Rightarrow> AuthContext \<Rightarrow> OrderResponse api_outcome \<Rightarrow> GasCylinder list api_outcome \<Rightarrow>
   running \<Rightarrow> running \<times> effect list" where
  "placeOrderRun rt auth res reload w =
     (let (w1, e1) = placeOrderStart rt auth w
      in if ordersInFlight w1 = ordersInFlight w then (w1, e1)
         else
           (let (w2, e2) = placeOrderSettle rt auth res w1;
                w3 = (if loadsInFlight w2 = loadsInFlight w then w2
                      else loadCylindersSettle reload w2)
            in (w3, e1 @ e2)))"

subsection \<open>The bounds of a cart line\<close>

text \<open>
  A line is within its bounds when \<open>1 \<le> quantity \<le> stockQuantity\<close>; a cart is in order
  when no two of its lines carry the same id and every line is within its bounds.
\<close>

definition lineOk :: "CartItem \<Rightarrow> bool" where
  "lineOk item = (1 \<le> quantity item \<and> quantity item \<le> stockQuantity item)"

definition cartOk :: "CartItem list \<Rightarrow> bool" where
  "cartOk c = (distinct (map id' c) \<and> list_all lineOk c)"

subsection \<open>Values for the examples\<close>

definition kilo6 :: GasCylinder where
  "kilo6 = \<lparr>id' = ''cyl-6kg'', price = 95000, stockQuantity = 3, isAvailable = True\<rparr>"

definition kilo13 :: GasCylinder where
  "kilo13 = \<lparr>id' = ''cyl-13kg'', price = 180000, stockQuantity = 0, isAvailable = True\<rparr>"

text \<open>The screen as it mounts for a user with no stored address or coordinates.\<close>

definition freshScreen :: screen where
  "freshScreen = initialScreen exactRuntime None None None"

text \<open>A form ready to be submitted: two cylinders in the cart, address and coordinates set.\<close>

definition filledScreen :: screen where
  "filledScreen =
     (initialScreen exactRuntime (Some ''Plot 5, Kampala Road'') (Some (Fin 0.3476)) (Some (Fin 32.5825)))
       \<lparr>cart := [cartItem kilo6 2], instructions := ''Call on arrival''\<rparr>"

definition customer :: AuthContext where
  "customer = \<lparr>userId = Some ''42'', token = Some ''jwt''\<rparr>"

text \<open>
  The filled form with nothing pending, and two histories of it. In both, a first
  submission fails with a stock message, which starts an inventory request. In
  \<open>retrying\<close> that request fails, the error banner appears and the user presses Retry.
  In \<open>resubmitting\<close> the user presses the order button again and the inventory request
  then resolves while the second submission is pending.
\<close>

definition filledRunning :: running where
  "filledRunning = \<lparr>current = filledScreen, ordersInFlight = 0, loadsInFlight = 0\<rparr>"

definition stockFailure :: running where
  "stockFailure =
     fst (placeOrderSettle exactRuntime customer (ApiRejected (Some ''Insufficient stock''))
            (fst (placeOrderStart exactRuntime customer filledRunning)))"


definition resubmitting :: running where
  "resubmitting =
     loadCylindersSettle (ApiResolved [kilo6])
       (fst (placeOrderStart exactRuntime customer stockFailure))"

text \<open>Two answers of the reverse geocoder: an address, and a result with no part set.\<close>

definition plot5 :: LocationGeocodedAddress where
  "plot5 = \<lparr>name = Some ''Plot 5'', street = Some ''Kampala Road'', city = Some ''Kampala'',
             region = None, postalCode = Some [], country = Some ''Uganda''\<rparr>"

definition nowhere :: LocationGeocodedAddress where
  "nowhere = \<lparr>name = None, street = Some [], city = None, region = None, postalCode = Some [],
               country = None\<rparr>"

section \<open>Properties\<close>

subsection \<open>Rules for running the model\<close>

text \<open>
  The equation of \<open>digits\<close> is used on numerals only, where its test is decided; so are
  the fuel of \<open>fractionDigits\<close> and the floor of a fraction.
\<close>

declare digits.simps [simp del]

lemma digits_numeral [simp]:
  "digits (numeral k) =
     (if (numeral k :: nat) < 10 then [''0123456789'' ! numeral k]
      else digits (numeral k div 10) @ [''0123456789'' ! (numeral k mod 10)])"
  by (rule digits.simps)

lemma digits_0 [simp]: "digits 0 = ''0''"
  by (simp add: digits.simps)

lemma digits_1 [simp]: "digits (Suc 0) = ''1''"
  by (simp add: digits.simps)

lemma floor_rat_numeral [simp]: "\<lfloor>numeral a / numeral b :: rat\<rfloor> = numeral a div numeral b"
  using floor_divide_of_int_eq [of "numeral a" "numeral b", where ?'a = rat] by simp

lemma fractionDigits_numeral [simp]:
  "fractionDigits (numeral k) r =
     (if r = 0 then []
      else (let d = nat \<lfloor>r * 10\<rfloor>
            in (''0123456789'' ! d) # fractionDigits (pred_numeral k) (r * 10 - of_nat d)))"
  by (simp add: numeral_eq_Suc)

lemmas runtime_eval =
  exactRuntime_def numToString_def printExact_def parseFloatExact_def isDigit_def
  isWhiteSpace_def digitsValue_def exponentPart_def

lemma kampala_valid: "validateCoordinates (Fin 0.3476) (Fin 32.5825)"
  by (simp add: validateCoordinates_def isNaN_def js_ge_def)

lemma freshScreen_fields:
  "deliveryLat freshScreen = [] \<and> deliveryLng freshScreen = []
   \<and> selectedLocation freshScreen = \<lparr>latitude = Fin 0.3476, longitude = Fin 32.5825\<rparr>"
  by (simp add: freshScreen_def initialScreen_def seedText_def seedNumber_def)

lemma filledScreen_eq:
  "filledScreen =
     \<lparr>cylinders = [], cart = [cartItem kilo6 2], deliveryAddress = ''Plot 5, Kampala Road'',
      deliveryLat = ''0.3476'', deliveryLng = ''32.5825'', instructions = ''Call on arrival'',
      loading = False, error = [], showMap = False,
      mapRegion = \<lparr>latitude = Fin 0.3476, longitude = Fin 32.5825,
                    latitudeDelta = Fin 0.0922, longitudeDelta = Fin 0.0421\<rparr>,
      selectedLocation = \<lparr>latitude = Fin 0.3476, longitude = Fin 32.5825\<rparr>,
      locationPermission = False, mapError = False, mapReady = False\<rparr>"
  by (simp add: filledScreen_def initialScreen_def seedText_def seedNumber_def truthy_num_def
        isNaN_def runtime_eval)

lemma parse_filled:
  "parseFloat exactRuntime ''0.3476'' = Fin 0.3476 \<and> parseFloat exactRuntime ''32.5825'' = Fin 32.5825"
  by (simp add: runtime_eval)

lemma trim_address: "trim ''Plot 5, Kampala Road'' = ''Plot 5, Kampala Road''"
  by (simp add: trim_def isWhiteSpace_def)

lemma toLocaleString_exact: "toLocaleString exactRuntime n = intToString n"
  by (simp add: exactRuntime_def)

lemma filledScreen_fields:
  "cart filledScreen = [cartItem kilo6 2]"
  "deliveryAddress filledScreen = ''Plot 5, Kampala Road''"
  "deliveryLat filledScreen = ''0.3476''"
  "deliveryLng filledScreen = ''32.5825''"
  "instructions filledScreen = ''Call on arrival''"
  "loading filledScreen = False"
  "selectedLocation filledScreen = \<lparr>latitude = Fin 0.3476, longitude = Fin 32.5825\<rparr>"
  by (simp_all add: filledScreen_eq)

lemma filledScreen_gate: "canPlaceOrder exactRuntime filledScreen = JBool True"
  by (simp add: canPlaceOrder_def filledScreen_fields parse_filled trim_address
        validateCoordinates_def isNaN_def js_ge_def)

lemma filledScreen_placed:
  "placeOrder exactRuntime customer (ApiResolved \<lparr>orderNumber = ''A17'', totalAmount = 190000\<rparr>)
     (ApiResolved []) filledScreen =
   (filledScreen\<lparr>loading := False\<rparr>,
    [ApiCreateOrder (CreateOrderPayload ''42'' [(''cyl-6kg'', 2)] ''Plot 5, Kampala Road''
                       (Fin 0.3476) (Fin 32.5825) (Some ''Call on arrival'')),
     Alert ''Order Placed!'' (''Order #A17 placed successfully!'' @ [CHR 0x0A] @ ''Total: UGX 190000'')
       [''View Orders'', ''New Order'']])"
  by (simp add: placeOrder_def customer_def truthy_token_def filledScreen_gate filledScreen_fields
        parse_filled trim_address validateCoordinates_def isNaN_def js_ge_def orderData_def
        orderPlacedAlert_def cartItem_def kilo6_def trim_def isWhiteSpace_def
        toLocaleString_exact intToString_def)

subsection \<open>Coordinate validation\<close>

text \<open>
  Claim C3. \<open>validateCoordinates lat lng\<close> is true exactly when both arguments are
  finite numbers (neither NaN nor an infinity) with the latitude in \<open>[-90, 90]\<close> and the
  longitude in \<open>[-180, 180]\<close>. The corners \<open>(\<plusminus>90, \<plusminus>180)\<close> and the point \<open>(0, 0)\<close>
  are valid: no rule excludes zero.
\<close>

theorem validateCoordinates_iff:
  "(validateCoordinates lat lng \<longleftrightarrow>
      (\<exists>x y. lat = Fin x \<and> lng = Fin y \<and> - 90 \<le> x \<and> x \<le> 90 \<and> - 180 \<le> y \<and> y \<le> 180))
   \<and> validateCoordinates (Fin 90) (Fin 180)
   \<and> validateCoordinates (Fin (- 90)) (Fin (- 180))
   \<and> validateCoordinates (Fin 90) (Fin (- 180))
   \<and> validateCoordinates (Fin (- 90)) (Fin 180)
   \<and> validateCoordinates (Fin 0) (Fin 0)
   \<and> \<not> validateCoordinates NaN lng \<and> \<not> validateCoordinates lat NaN
   \<and> \<not> validateCoordinates PosInfinity lng \<and> \<not> validateCoordinates NegInfinity lng
   \<and> \<not> validateCoordinates lat PosInfinity \<and> \<not> validateCoordinates lat NegInfinity"
  by (cases lat; cases lng)
     (simp_all add: validateCoordinates_def isNaN_def js_ge_def)

subsection \<open>The map region\<close>

text \<open>
  Claim C5. An invalid pair handed to \<open>updateMapRegion\<close> never becomes the selected
  location or the map region: both are reset to the default coordinate
  \<open>(0.3476, 32.5825)\<close>. Whatever the arguments, the two coordinates stored afterwards
  are valid, and the spans of the region are \<open>0.0922\<close> and \<open>0.0421\<close>.
\<close>

theorem updateMapRegion_invalid_resets:
  "(\<not> validateCoordinates lat lng \<longrightarrow>
      mapRegion (fst (updateMapRegion lat lng s)) =
        \<lparr>latitude = Fin 0.3476, longitude = Fin 32.5825,
         latitudeDelta = Fin 0.0922, longitudeDelta = Fin 0.0421\<rparr>
      \<and> selectedLocation (fst (updateMapRegion lat lng s)) =
        \<lparr>latitude = Fin 0.3476, longitude = Fin 32.5825\<rparr>)
   \<and> validateCoordinates (latitude (mapRegion (fst (updateMapRegion lat lng s))))
                          (longitude (mapRegion (fst (updateMapRegion lat lng s))))
   \<and> validateCoordinates (latitude (selectedLocation (fst (updateMapRegion lat lng s))))
                          (longitude (selectedLocation (fst (updateMapRegion lat lng s))))
   \<and> latitudeDelta (mapRegion (fst (updateMapRegion lat lng s))) = Fin 0.0922
   \<and> longitudeDelta (mapRegion (fst (updateMapRegion lat lng s))) = Fin 0.0421"
  using kampala_valid by (simp add: updateMapRegion_def)

theorem updateMapRegion_invalid_resets_witness:
  "\<not> validateCoordinates NaN (Fin 200)
   \<and> selectedLocation (initialScreen exactRuntime None (Some (Fin 1)) (Some (Fin 2)))
       = \<lparr>latitude = Fin 1, longitude = Fin 2\<rparr>
   \<and> selectedLocation
        (fst (updateMapRegion NaN (Fin 200)
               (initialScreen exactRuntime None (Some (Fin 1)) (Some (Fin 2)))))
       = \<lparr>latitude = Fin 0.3476, longitude = Fin 32.5825\<rparr>
   \<and> mapRegion
        (fst (updateMapRegion NaN (Fin 200)
               (initialScreen exactRuntime None (Some (Fin 1)) (Some (Fin 2)))))
       = \<lparr>latitude = Fin 0.3476, longitude = Fin 32.5825,
          latitudeDelta = Fin 0.0922, longitudeDelta = Fin 0.0421\<rparr>"
  using updateMapRegion_invalid_resets
          [of NaN "Fin 200" "initialScreen exactRuntime None (Some (Fin 1)) (Some (Fin 2))"]
  by (simp add: validateCoordinates_def isNaN_def initialScreen_def seedNumber_def truthy_num_def)

subsection \<open>The fix that arrives after the user has typed\<close>

text \<open>
  After a valid fix, the two text fields are the fix's strings exactly when one of the
  fields of \<open>closure\<close> is empty; what \<open>between\<close> has typed is not looked at.
\<close>

lemma requestLocationPermission_text_fields:
  assumes "validateCoordinates lat lng"
  shows "deliveryLat (fst (requestLocationPermission rt closure (PermissionStatus ''granted'')
                             between (PositionCoords lat lng) s)) =
           (if deliveryLat closure = [] \<or> deliveryLng closure = [] then numToString rt lat
            else deliveryLat (between (s\<lparr>locationPermission := True\<rparr>)))"
    and "deliveryLng (fst (requestLocationPermission rt closure (PermissionStatus ''granted'')
                             between (PositionCoords lat lng) s)) =
           (if deliveryLat closure = [] \<or> deliveryLng closure = [] then numToString rt lng
            else deliveryLng (between (s\<lparr>locationPermission := True\<rparr>)))"
  using assms by (simp_all add: requestLocationPermission_def updateMapRegion_def)

text \<open>
  Claim C1 (stale-response guard). The claim asks that a fix which resolves after the
  user has typed into the coordinate fields leaves the typed text alone, while the
  marker moves. Here the screen mounts with both fields empty, the permission is
  granted, the user types \<open>1.0\<close> into the latitude field while the position request is
  pending, and the fix \<open>(0.3, 32.6)\<close> arrives. The marker moves to the fix, but the test
  \<^verbatim>\<open>!deliveryLat || !deliveryLng\<close> reads the empty fields of the first render, and the
  latitude field, which held \<open>1.0\<close>, ends as \<open>0.3\<close>.
\<close>

theorem stale_fix_overwrites_typed_latitude:
  "deliveryLat (typeLatitude ''1.0'' (freshScreen\<lparr>locationPermission := True\<rparr>)) = ''1.0''
   \<and> deliveryLat (fst (requestLocationPermission exactRuntime freshScreen
         (PermissionStatus ''granted'') (typeLatitude ''1.0'')
         (PositionCoords (Fin 0.3) (Fin 32.6)) freshScreen)) = ''0.3''
   \<and> deliveryLng (fst (requestLocationPermission exactRuntime freshScreen
         (PermissionStatus ''granted'') (typeLatitude ''1.0'')
         (PositionCoords (Fin 0.3) (Fin 32.6)) freshScreen)) = ''32.6''
   \<and> selectedLocation (fst (requestLocationPermission exactRuntime freshScreen
         (PermissionStatus ''granted'') (typeLatitude ''1.0'')
         (PositionCoords (Fin 0.3) (Fin 32.6)) freshScreen))
       = \<lparr>latitude = Fin 0.3, longitude = Fin 32.6\<rparr>"
  by (simp add: requestLocationPermission_def freshScreen_fields updateMapRegion_def
        typeLatitude_def validateCoordinates_def isNaN_def js_ge_def runtime_eval)

text \<open>
  The same happens when both fields have been typed, so that a test of the current
  fields would find neither empty.
\<close>

lemma stale_fix_overwrites_both_fields:
  "deliveryLat (fst (requestLocationPermission exactRuntime freshScreen
         (PermissionStatus ''granted'') (typeLongitude ''2.0'' \<circ> typeLatitude ''1.0'')
         (PositionCoords (Fin 0.3) (Fin 32.6)) freshScreen)) = ''0.3''
   \<and> deliveryLng (fst (requestLocationPermission exactRuntime freshScreen
         (PermissionStatus ''granted'') (typeLongitude ''2.0'' \<circ> typeLatitude ''1.0'')
         (PositionCoords (Fin 0.3) (Fin 32.6)) freshScreen)) = ''32.6''"
  by (simp add: requestLocationPermission_def freshScreen_fields updateMapRegion_def
        typeLatitude_def typeLongitude_def validateCoordinates_def isNaN_def js_ge_def runtime_eval)

subsection \<open>The submission gate\<close>

text \<open>
  The pieces of \<^verbatim>\<open>loadCylinders\<close> and of \<^verbatim>\<open>placeOrder\<close>, run one after the other with
  nothing in between, give the state and the effects of the whole functions.
\<close>

lemma loadCylinders_steps:
  "truthy_token tok \<Longrightarrow>
     current (loadCylindersSettle res (loadCylindersStart tok w)) = loadCylinders tok res (current w)"
  "\<not> truthy_token tok \<Longrightarrow> loadCylindersStart tok w = w \<and> loadCylinders tok res (current w) = current w"
  by (simp_all add: loadCylindersSettle_def loadCylindersStart_def loadCylinders_def
        split: api_outcome.splits)

lemma placeOrder_steps:
  "current (fst (placeOrderRun rt auth res reload w)) = fst (placeOrder rt auth res reload (current w))
   \<and> snd (placeOrderRun rt auth res reload w) = snd (placeOrder rt auth res reload (current w))
   \<and> ordersInFlight (fst (placeOrderRun rt auth res reload w)) = ordersInFlight w
   \<and> loadsInFlight (fst (placeOrderRun rt auth res reload w)) = loadsInFlight w"
  by (simp add: placeOrderRun_def placeOrderStart_def placeOrderSettle_def placeOrder_def
        loadCylindersStart_def loadCylindersSettle_def loadCylinders_def Let_def
        split: option.splits api_outcome.splits)

lemma customer_fields: "userId customer = Some ''42''" "token customer = Some ''jwt''"
  by (simp_all add: customer_def)

lemma filledRunning_started:
  "fst (placeOrderStart exactRuntime customer filledRunning) =
     \<lparr>current = filledScreen\<lparr>loading := True\<rparr>, ordersInFlight = 1, loadsInFlight = 0\<rparr>"
  by (simp add: placeOrderStart_def customer_fields truthy_token_def filledRunning_def
        filledScreen_gate filledScreen_fields parse_filled validateCoordinates_def isNaN_def js_ge_def)

lemma stockFailure_eq:
  "stockFailure =
     \<lparr>current = filledScreen\<lparr>loading := False\<rparr>, ordersInFlight = 0, loadsInFlight = 1\<rparr>"
  by (simp add: stockFailure_def filledRunning_started placeOrderSettle_def loadCylindersStart_def
        customer_fields truthy_token_def)


lemma resubmitting_eq:
  "resubmitting =
     \<lparr>current = filledScreen\<lparr>cylinders := [kilo6], error := [], loading := False\<rparr>,
      ordersInFlight = 1, loadsInFlight = 0\<rparr>"
  by (simp add: resubmitting_def stockFailure_eq placeOrderStart_def loadCylindersSettle_def
        customer_fields truthy_token_def canPlaceOrder_def filledScreen_fields parse_filled
        trim_address validateCoordinates_def isNaN_def js_ge_def kilo6_def)






text \<open>
  The flag is also lowered by an inventory request that settles while a submission is
  pending: the gate is then open with a submission in flight, and a second one can be
  started.
\<close>

lemma canPlaceOrder_open_during_submission:
  "ordersInFlight resubmitting = 1
   \<and> canPlaceOrder exactRuntime (current resubmitting) = JBool True
   \<and> ordersInFlight (fst (placeOrderStart exactRuntime customer resubmitting)) = 2"
  by (simp add: resubmitting_eq placeOrderStart_def customer_fields truthy_token_def
        canPlaceOrder_def filledScreen_fields parse_filled trim_address validateCoordinates_def
        isNaN_def js_ge_def)

subsection \<open>The amounts shown\<close>

lemma foldl_sum: "foldl (\<lambda>sum item. sum + f item) a xs = a + sum_list (map f xs)"
  by (induction xs arbitrary: a) (simp_all add: add.assoc)

text \<open>
  Claim C9. The total is the subtotal, and the subtotal is the sum over the cart lines of
  price times quantity; the order button and both rows of the summary show that amount,
  with nothing added.
\<close>

theorem total_is_sum_of_lines:
  "total s = subtotal s
   \<and> subtotal s = (\<Sum>item\<leftarrow>cart s. price item * quantity item)
   \<and> orderBtnText rt s =
       (if loading s then None
        else Some (''Place Order - UGX ''
                   @ toLocaleString rt (\<Sum>item\<leftarrow>cart s. price item * quantity item)))
   \<and> orderSummary rt s =
       (if cart s = [] then None
        else Some (''UGX '' @ toLocaleString rt (\<Sum>item\<leftarrow>cart s. price item * quantity item),
                   ''UGX '' @ toLocaleString rt (\<Sum>item\<leftarrow>cart s. price item * quantity item)))"
  by (simp add: total_def subtotal_def orderBtnText_def orderSummary_def foldl_sum)

theorem total_is_sum_of_lines_witness:
  "total filledScreen = 190000
   \<and> subtotal filledScreen = 190000
   \<and> orderBtnText exactRuntime filledScreen = Some ''Place Order - UGX 190000''
   \<and> orderSummary exactRuntime filledScreen = Some (''UGX 190000'', ''UGX 190000'')"
  using total_is_sum_of_lines [of filledScreen exactRuntime]
  by (simp add: filledScreen_eq cartItem_def kilo6_def exactRuntime_def intToString_def)

subsection \<open>The cart\<close>

lemma find_absent: "i \<notin> id' ` set prev \<Longrightarrow> List.find (\<lambda>item. id' item = i) prev = None"
  by (auto simp: find_None_iff)

text \<open>
  Claim C10. When no line of the cart carries the cylinder's id, \<open>addToCart\<close> appends a
  line for it with quantity \<open>1\<close> and raises no alert, whatever the cylinder's
  \<open>stockQuantity\<close> (which is not read on this path): a cylinder with \<open>stockQuantity = 0\<close>
  enters the cart with quantity \<open>1\<close>.
\<close>

theorem addToCart_absent_appends_one:
  "id' cylinder \<notin> id' ` set prev \<Longrightarrow>
     addToCart cylinder prev = (prev @ [cartItem cylinder 1], [])
     \<and> quantity (cartItem cylinder 1) = 1
     \<and> stockQuantity (cartItem cylinder 1) = stockQuantity cylinder"
  by (simp add: addToCart_def find_absent cartItem_def)

theorem addToCart_absent_appends_one_witness:
  "id' kilo13 \<notin> id' ` set [cartItem kilo6 2]
   \<and> stockQuantity kilo13 = 0
   \<and> addToCart kilo13 [cartItem kilo6 2] =
       ([cartItem kilo6 2,
         \<lparr>id' = ''cyl-13kg'', price = 180000, stockQuantity = 0, isAvailable = True, quantity = 1\<rparr>],
        [])"
  using addToCart_absent_appends_one [of kilo13 "[cartItem kilo6 2]"]
  by (simp add: cartItem_def kilo13_def kilo6_def)

text \<open>\<open>updateQuantity\<close>, one line at a time.\<close>

lemma updateQuantity_Nil [simp]: "updateQuantity i change [] = ([], [])"
  by (simp add: updateQuantity_def)

lemma updateQuantity_Cons:
  "updateQuantity i change (x # xs) =
     ((case fst (updateLine i change x) of None \<Rightarrow> [] | Some y \<Rightarrow> [y]) @ fst (updateQuantity i change xs),
      snd (updateLine i change x) @ snd (updateQuantity i change xs))"
  by (simp add: updateQuantity_def Let_def split: option.splits)

lemma updateLine_cases:
  "updateLine i change x = (None, []) \<and> id' x = i \<and> quantity x + change \<le> 0
   \<or> updateLine i change x = (Some x, [stockLimit (stockQuantity x)]) \<and> id' x = i
        \<and> 0 < quantity x + change \<and> stockQuantity x < quantity x + change
   \<or> updateLine i change x = (Some (x\<lparr>quantity := quantity x + change\<rparr>), []) \<and> id' x = i
        \<and> 0 < quantity x + change \<and> quantity x + change \<le> stockQuantity x
   \<or> updateLine i change x = (Some x, []) \<and> id' x \<noteq> i"
  by (simp add: updateLine_def Let_def)

lemma ids_updateQuantity: "id' ` set (fst (updateQuantity i change xs)) \<subseteq> id' ` set xs"
proof (induction xs)
  case Nil
  then show ?case by simp
next
  case (Cons x xs)
  then show ?case
    using updateLine_cases [of i change x] by (auto simp: updateQuantity_Cons)
qed

lemma distinct_updateQuantity:
  "distinct (map id' xs) \<Longrightarrow> distinct (map id' (fst (updateQuantity i change xs)))"
proof (induction xs)
  case Nil
  then show ?case by simp
next
  case (Cons x xs)
  then show ?case
    using updateLine_cases [of i change x] ids_updateQuantity [of i change xs]
    by (auto simp: updateQuantity_Cons)
qed

lemma lineOk_updateQuantity:
  "list_all lineOk xs \<Longrightarrow> list_all lineOk (fst (updateQuantity i change xs))"
proof (induction xs)
  case Nil
  then show ?case by simp
next
  case (Cons x xs)
  then show ?case
    using updateLine_cases [of i change x] by (auto simp: updateQuantity_Cons lineOk_def)
qed

lemma updateQuantity_other:
  "i \<notin> id' ` set xs \<Longrightarrow> updateQuantity i change xs = (xs, [])"
  by (induction xs) (auto simp: updateQuantity_Cons updateLine_def)

lemma filter_other: "i \<notin> id' ` set xs \<Longrightarrow> filter (\<lambda>l. id' l \<noteq> i) xs = xs"
  by (induction xs) auto

lemma updateQuantity_blocked:
  assumes "distinct (map id' xs)" "item \<in> set xs" "id' item = i"
    "0 < quantity item + change" "stockQuantity item < quantity item + change"
  shows "updateQuantity i change xs = (xs, [stockLimit (stockQuantity item)])"
  using assms
proof (induction xs)
  case Nil
  then show ?case by simp
next
  case (Cons x xs)
  show ?case
  proof (cases "x = item")
    case True
    with Cons.prems have "i \<notin> id' ` set xs" by auto
    with True Cons.prems show ?thesis
      by (simp add: updateQuantity_Cons updateQuantity_other updateLine_def)
  next
    case False
    with Cons.prems have "item \<in> set xs" "id' x \<noteq> i" by auto
    with Cons show ?thesis
      by (simp add: updateQuantity_Cons updateLine_def)
  qed
qed

lemma updateQuantity_removed:
  assumes "distinct (map id' xs)" "item \<in> set xs" "id' item = i" "quantity item + change \<le> 0"
  shows "updateQuantity i change xs = (filter (\<lambda>l. id' l \<noteq> i) xs, [])"
  using assms
proof (induction xs)
  case Nil
  then show ?case by simp
next
  case (Cons x xs)
  show ?case
  proof (cases "x = item")
    case True
    with Cons.prems have "i \<notin> id' ` set xs" by auto
    with True Cons.prems show ?thesis
      by (simp add: updateQuantity_Cons updateQuantity_other updateLine_def filter_other)
  next
    case False
    with Cons.prems have "item \<in> set xs" "id' x \<noteq> i" by auto
    with Cons show ?thesis
      by (simp add: updateQuantity_Cons updateLine_def)
  qed
qed

lemma updateQuantity_changed:
  assumes "distinct (map id' xs)" "item \<in> set xs" "id' item = i"
    "0 < quantity item + change" "quantity item + change \<le> stockQuantity item"
  shows "updateQuantity i change xs =
           (map (\<lambda>l. if id' l = i then l\<lparr>quantity := quantity l + change\<rparr> else l) xs, [])"
  using assms
proof (induction xs)
  case Nil
  then show ?case by simp
next
  case (Cons x xs)
  show ?case
  proof (cases "x = item")
    case True
    with Cons.prems have "i \<notin> id' ` set xs" by auto
    then have "map (\<lambda>l. if id' l = i then l\<lparr>quantity := quantity l + change\<rparr> else l) xs = xs"
      by (induction xs) auto
    with True Cons.prems \<open>i \<notin> id' ` set xs\<close> show ?thesis
      by (simp add: updateQuantity_Cons updateQuantity_other updateLine_def)
  next
    case False
    with Cons.prems have "item \<in> set xs" "id' x \<noteq> i" by auto
    with Cons show ?thesis
      by (simp add: updateQuantity_Cons updateLine_def)
  qed
qed

lemma find_Some_id:
  "List.find (\<lambda>item. id' item = i) prev = Some existing \<Longrightarrow> existing \<in> set prev \<and> id' existing = i"
  by (auto simp: find_Some_iff)

lemma same_id_same_line:
  "distinct (map id' xs) \<Longrightarrow> a \<in> set xs \<Longrightarrow> b \<in> set xs \<Longrightarrow> id' a = id' b \<Longrightarrow> a = b"
  by (meson distinct_map inj_on_def)

lemma addToCart_keeps_cartOk:
  assumes ok: "cartOk prev" and stock: "1 \<le> stockQuantity cylinder"
    and same: "\<forall>item\<in>set prev. id' item = id' cylinder \<longrightarrow> stockQuantity cylinder \<le> stockQuantity item"
  shows "cartOk (fst (addToCart cylinder prev))"
proof (cases "List.find (\<lambda>item. id' item = id' cylinder) prev")
  case None
  then have "id' cylinder \<notin> id' ` set prev"
    by (auto simp: find_None_iff)
  with None ok stock show ?thesis
    by (auto simp: addToCart_def cartOk_def lineOk_def cartItem_def)
next
  case (Some existing)
  then have ex: "existing \<in> set prev" "id' existing = id' cylinder"
    using find_Some_id by blast+
  let ?f = "\<lambda>item. if id' item = id' cylinder then item\<lparr>quantity := quantity item + 1\<rparr> else item"
  show ?thesis
  proof (cases "stockQuantity cylinder \<le> quantity existing")
    case True
    with Some ok show ?thesis by (simp add: addToCart_def)
  next
    case False
    have "map id' (map ?f prev) = map id' prev"
      by (induction prev) auto
    with ok have d: "distinct (map id' (map ?f prev))"
      by (simp only: cartOk_def)
    have "lineOk (?f item)" if "item \<in> set prev" for item
    proof (cases "id' item = id' cylinder")
      case True
      with ok ex that have "item = existing"
        using same_id_same_line [of prev item existing] by (simp add: cartOk_def)
      with True False same ex ok show ?thesis
        by (auto simp: lineOk_def cartOk_def list_all_iff)
    next
      case False
      with ok that show ?thesis by (simp add: cartOk_def list_all_iff)
    qed
    then have l: "list_all lineOk (map ?f prev)"
      unfolding list_all_iff set_map by blast
    from Some False have "fst (addToCart cylinder prev) = map ?f prev"
      by (simp add: addToCart_def)
    with d l show ?thesis
      by (simp only: cartOk_def simp_thms)
  qed
qed


text \<open>
  Claim C6, as the code has it. A cart is in order when its lines have distinct ids and
  every line has \<open>1 \<le> quantity \<le> stockQuantity\<close>.
  \<^item> \<open>addToCart\<close> keeps a cart in order when the cylinder offered has
    \<open>stockQuantity \<ge> 1\<close> (the inventory shown is filtered to such cylinders) and is
    not offered with more stock than its line in the cart records.
  \<^item> \<open>updateQuantity\<close> keeps a cart in order, for every id and every change.
  \<^item> An add for a cylinder whose line has already reached the cylinder's
    \<open>stockQuantity\<close> leaves the cart unchanged and raises the stock notice.
  \<^item> An increment that would exceed the line's \<open>stockQuantity\<close> leaves the cart unchanged
    and raises the stock notice.
  \<^item> A decrement that takes the quantity to \<open>0\<close> or below removes the line, and nothing
    else.
  \<^item> Otherwise an add raises the quantity of the cylinder's line by one, and a change
    within the bounds is applied to the line.
\<close>

theorem cart_operations_keep_bounds:
  "(cartOk prev \<and> 1 \<le> stockQuantity cylinder
      \<and> (\<forall>item\<in>set prev. id' item = id' cylinder \<longrightarrow> stockQuantity cylinder \<le> stockQuantity item)
      \<longrightarrow> cartOk (fst (addToCart cylinder prev)))
   \<and> (cartOk prev \<longrightarrow> cartOk (fst (updateQuantity i change prev)))
   \<and> (List.find (\<lambda>item. id' item = id' cylinder) prev = Some existing
        \<and> stockQuantity cylinder \<le> quantity existing
      \<longrightarrow> addToCart cylinder prev = (prev, [stockLimit (stockQuantity cylinder)]))
   \<and> (cartOk prev \<and> item \<in> set prev \<and> id' item = i \<and> stockQuantity item < quantity item + change
      \<longrightarrow> updateQuantity i change prev = (prev, [stockLimit (stockQuantity item)]))
   \<and> (cartOk prev \<and> item \<in> set prev \<and> id' item = i \<and> quantity item + change \<le> 0
      \<longrightarrow> updateQuantity i change prev = (filter (\<lambda>l. id' l \<noteq> i) prev, []))
   \<and> (List.find (\<lambda>item. id' item = id' cylinder) prev = Some existing
        \<and> quantity existing < stockQuantity cylinder
      \<longrightarrow> addToCart cylinder prev =
            (map (\<lambda>l. if id' l = id' cylinder then l\<lparr>quantity := quantity l + 1\<rparr> else l) prev, []))
   \<and> (cartOk prev \<and> item \<in> set prev \<and> id' item = i
        \<and> 0 < quantity item + change \<and> quantity item + change \<le> stockQuantity item
      \<longrightarrow> updateQuantity i change prev =
            (map (\<lambda>l. if id' l = i then l\<lparr>quantity := quantity l + change\<rparr> else l) prev, []))"
proof (intro conjI impI)
  assume "cartOk prev \<and> 1 \<le> stockQuantity cylinder
      \<and> (\<forall>item\<in>set prev. id' item = id' cylinder \<longrightarrow> stockQuantity cylinder \<le> stockQuantity item)"
  then show "cartOk (fst (addToCart cylinder prev))"
    using addToCart_keeps_cartOk by blast
next
  assume "cartOk prev"
  then show "cartOk (fst (updateQuantity i change prev))"
    by (simp add: cartOk_def distinct_updateQuantity lineOk_updateQuantity)
next
  assume "List.find (\<lambda>item. id' item = id' cylinder) prev = Some existing
        \<and> stockQuantity cylinder \<le> quantity existing"
  then show "addToCart cylinder prev = (prev, [stockLimit (stockQuantity cylinder)])"
    by (simp add: addToCart_def)
next
  assume a: "cartOk prev \<and> item \<in> set prev \<and> id' item = i \<and> stockQuantity item < quantity item + change"
  then have "lineOk item"
    by (simp add: cartOk_def list_all_iff)
  with a have "0 < quantity item + change"
    by (simp add: lineOk_def)
  with a show "updateQuantity i change prev = (prev, [stockLimit (stockQuantity item)])"
    using updateQuantity_blocked [of prev item i change] by (simp add: cartOk_def)
next
  assume "cartOk prev \<and> item \<in> set prev \<and> id' item = i \<and> quantity item + change \<le> 0"
  then show "updateQuantity i change prev = (filter (\<lambda>l. id' l \<noteq> i) prev, [])"
    using updateQuantity_removed [of prev item i change] by (simp add: cartOk_def)
next
  assume "List.find (\<lambda>item. id' item = id' cylinder) prev = Some existing
        \<and> quantity existing < stockQuantity cylinder"
  then show "addToCart cylinder prev =
      (map (\<lambda>l. if id' l = id' cylinder then l\<lparr>quantity := quantity l + 1\<rparr> else l) prev, [])"
    by (simp add: addToCart_def)
next
  assume "cartOk prev \<and> item \<in> set prev \<and> id' item = i
        \<and> 0 < quantity item + change \<and> quantity item + change \<le> stockQuantity item"
  then show "updateQuantity i change prev =
      (map (\<lambda>l. if id' l = i then l\<lparr>quantity := quantity l + change\<rparr> else l) prev, [])"
    using updateQuantity_changed [of prev item i change] by (simp add: cartOk_def)
qed

text \<open>
  With \<open>stockQuantity = 3\<close>: three adds give the quantities \<open>1\<close>, \<open>2\<close>, \<open>3\<close>; a fourth
  add and an increment leave \<open>3\<close> and raise the notice; a decrement of a line with
  quantity \<open>1\<close> removes it.
\<close>

lemmas cart_eval =
  addToCart_def updateQuantity_def updateLine_def cartItem_def kilo6_def kilo13_def
  stockLimit_def intToString_def cartOk_def lineOk_def

theorem cart_operations_keep_bounds_witness:
  "addToCart kilo6 [] = ([cartItem kilo6 1], [])
   \<and> addToCart kilo6 [cartItem kilo6 1] = ([cartItem kilo6 2], [])
   \<and> addToCart kilo6 [cartItem kilo6 2] = ([cartItem kilo6 3], [])
   \<and> addToCart kilo6 [cartItem kilo6 3] =
       ([cartItem kilo6 3], [Alert ''Stock Limit'' ''Only 3 available'' []])
   \<and> updateQuantity ''cyl-6kg'' 1 [cartItem kilo6 3] =
       ([cartItem kilo6 3], [Alert ''Stock Limit'' ''Only 3 available'' []])
   \<and> updateQuantity ''cyl-6kg'' (- 1) [cartItem kilo6 3] = ([cartItem kilo6 2], [])
   \<and> updateQuantity ''cyl-6kg'' (- 1) [cartItem kilo6 1] = ([], [])
   \<and> cartOk [cartItem kilo6 1] \<and> cartOk [cartItem kilo6 2] \<and> cartOk [cartItem kilo6 3]
   \<and> 1 \<le> stockQuantity kilo6"
  using cart_operations_keep_bounds
          [of "[cartItem kilo6 3]" kilo6 "''cyl-6kg''" 1 "cartItem kilo6 3" "cartItem kilo6 3"]
        cart_operations_keep_bounds
          [of "[cartItem kilo6 1]" kilo6 "''cyl-6kg''" "- 1" "cartItem kilo6 1" "cartItem kilo6 1"]
  by (simp add: cart_eval)

text \<open>
  Claim C6 as stated, for every add, fails: \<open>addToCart\<close> does not read the stock of a
  cylinder that has no line yet, so a cylinder with \<open>stockQuantity = 0\<close> gets a line with
  quantity \<open>1\<close>.
\<close>

theorem addToCart_zero_stock_breaks_bounds:
  "cartOk []
   \<and> addToCart kilo13 [] =
       ([\<lparr>id' = ''cyl-13kg'', price = 180000, stockQuantity = 0, isAvailable = True, quantity = 1\<rparr>], [])
   \<and> \<not> cartOk (fst (addToCart kilo13 []))"
  by (simp add: cart_eval)

text \<open>
  The stock in the test of \<open>addToCart\<close> is the cylinder's, not the line's: a cylinder
  offered with more stock than its line records takes the line past the line's own
  \<open>stockQuantity\<close>.
\<close>

lemma addToCart_restocked_breaks_bounds:
  "cartOk [cartItem kilo6 3]
   \<and> fst (addToCart (kilo6\<lparr>stockQuantity := 5\<rparr>) [cartItem kilo6 3]) = [cartItem kilo6 4]
   \<and> \<not> cartOk [cartItem kilo6 4]"
  by (simp add: cart_eval)

subsection \<open>Coordinates that fail the check\<close>

text \<open>
  Claim C4, as the code has it. For a pair that fails \<open>validateCoordinates\<close>:
  \<^item> a tap on the map (also a tap without a coordinate) changes nothing in the state;
    a warning is logged and an alert is shown;
  \<^item> the fix requested at mount changes nothing but \<open>locationPermission\<close>; a warning
    is logged;
  \<^item> the fix requested by the button changes nothing; an alert is shown;
  \<^item> \<open>updateMapRegion\<close> leaves the text fields and the address as they are, and sets the
    selected location and the map region to the default coordinate
    \<open>(0.3476, 32.5825)\<close>, whatever they were before; a warning is logged.

  The default is also the location of a screen that mounts without stored coordinates.
\<close>

theorem invalid_coordinate_handling:
  "\<not> validateCoordinates lat lng \<Longrightarrow>
     onMapPress rt (NativeEvent (Some \<lparr>latitude = lat, longitude = lng\<rparr>)) geo s =
       (s, [ConsoleWarn ''Invalid map press coordinates'',
            Alert ''Invalid Selection'' ''Please tap on a valid location on the map.'' []])
     \<and> onMapPress rt (NativeEvent None) geo s =
       (s, [ConsoleWarn ''Invalid map press coordinates'',
            Alert ''Invalid Selection'' ''Please tap on a valid location on the map.'' []])
     \<and> requestLocationPermission rt closure (PermissionStatus ''granted'') between
          (PositionCoords lat lng) s =
       (between (s\<lparr>locationPermission := True\<rparr>),
        [ConsoleWarn ''Invalid coordinates from getCurrentPositionAsync:''])
     \<and> getCurrentLocation rt (PositionCoords lat lng) geo (s\<lparr>locationPermission := True\<rparr>) =
       (s\<lparr>locationPermission := True\<rparr>,
        [Alert ''Error'' ''Invalid coordinates obtained from current location. Please try again.'' []])
     \<and> updateMapRegion lat lng s =
       (s\<lparr>mapRegion := \<lparr>latitude = Fin 0.3476, longitude = Fin 32.5825,
                         latitudeDelta = Fin 0.0922, longitudeDelta = Fin 0.0421\<rparr>,
          selectedLocation := \<lparr>latitude = Fin 0.3476, longitude = Fin 32.5825\<rparr>\<rparr>,
        [ConsoleWarn ''Invalid coordinates provided to updateMapRegion:''])
     \<and> deliveryLat (fst (updateMapRegion lat lng s)) = deliveryLat s
     \<and> deliveryLng (fst (updateMapRegion lat lng s)) = deliveryLng s
     \<and> deliveryAddress (fst (updateMapRegion lat lng s)) = deliveryAddress s
     \<and> selectedLocation (initialScreen rt addr None None) =
         \<lparr>latitude = Fin 0.3476, longitude = Fin 32.5825\<rparr>"
  by (simp add: onMapPress_def requestLocationPermission_def getCurrentLocation_def
        updateMapRegion_def initialScreen_def seedNumber_def)

theorem invalid_coordinate_handling_witness:
  "\<not> validateCoordinates (Fin 95) (Fin 10)
   \<and> fst (onMapPress exactRuntime (NativeEvent (Some \<lparr>latitude = Fin 95, longitude = Fin 10\<rparr>))
            (GeocodeResults []) filledScreen) = filledScreen
   \<and> fst (requestLocationPermission exactRuntime freshScreen (PermissionStatus ''granted'') id
            (PositionCoords (Fin 95) (Fin 10)) filledScreen) = filledScreen\<lparr>locationPermission := True\<rparr>
   \<and> selectedLocation (fst (updateMapRegion (Fin 95) (Fin 10) filledScreen))
       = \<lparr>latitude = Fin 0.3476, longitude = Fin 32.5825\<rparr>
   \<and> deliveryLat (fst (updateMapRegion (Fin 95) (Fin 10) filledScreen)) = ''0.3476''"
  using invalid_coordinate_handling
          [of "Fin 95" "Fin 10" exactRuntime "GeocodeResults []" filledScreen freshScreen id None]
  by (simp add: validateCoordinates_def isNaN_def js_ge_def filledScreen_eq)

text \<open>
  Claim C4 as stated, with the last known good location kept after an invalid argument
  to \<open>updateMapRegion\<close>, fails: after the marker has been put at \<open>(1, 2)\<close>, the call
  \<^verbatim>\<open>updateMapRegion(NaN, 2)\<close> moves it to the default.
\<close>

theorem updateMapRegion_invalid_moves_marker:
  "selectedLocation (fst (updateMapRegion (Fin 1) (Fin 2) freshScreen))
     = \<lparr>latitude = Fin 1, longitude = Fin 2\<rparr>
   \<and> \<not> validateCoordinates NaN (Fin 2)
   \<and> selectedLocation
        (fst (updateMapRegion NaN (Fin 2) (fst (updateMapRegion (Fin 1) (Fin 2) freshScreen))))
     = \<lparr>latitude = Fin 0.3476, longitude = Fin 32.5825\<rparr>
   \<and> selectedLocation
        (fst (updateMapRegion NaN (Fin 2) (fst (updateMapRegion (Fin 1) (Fin 2) freshScreen))))
     \<noteq> selectedLocation (fst (updateMapRegion (Fin 1) (Fin 2) freshScreen))"
  by (simp add: updateMapRegion_def validateCoordinates_def isNaN_def js_ge_def)

subsection \<open>A successful order\<close>

text \<open>
  Claim C7, as the code has it. When the user is logged in and the gate is open, a
  successful \<^verbatim>\<open>createOrder\<close> ends the submission (\<open>loading\<close> is false) and shows the
  alert \<^verbatim>\<open>Order Placed!\<close> with the two buttons \<^verbatim>\<open>View Orders\<close> and \<^verbatim>\<open>New Order\<close>; the
  cart is as it was. \<^verbatim>\<open>View Orders\<close> navigates to \<^verbatim>\<open>/orders\<close> and changes nothing in the
  state. \<^verbatim>\<open>New Order\<close> empties the cart, clears the special instructions and reloads the
  inventory, which becomes the available cylinders with stock.
\<close>

theorem placeOrder_success:
  "userId auth = Some uid \<and> truthy_token (token auth) \<and> truthy (canPlaceOrder rt s) \<Longrightarrow>
     placeOrder rt auth (ApiResolved response) reload s =
       (s\<lparr>loading := False\<rparr>, [ApiCreateOrder (orderData rt uid s), orderPlacedAlert rt response])
     \<and> cart (fst (placeOrder rt auth (ApiResolved response) reload s)) = cart s
     \<and> (\<exists>message. orderPlacedAlert rt response =
           Alert ''Order Placed!'' message [''View Orders'', ''New Order''])
     \<and> pressViewOrders s' = (s', [RouterPush ''/orders''])
     \<and> cart (fst (pressNewOrder (token auth) reload' s')) = []
     \<and> instructions (fst (pressNewOrder (token auth) reload' s')) = []
     \<and> cylinders (fst (pressNewOrder (token auth) (ApiResolved data) s')) =
         filter (\<lambda>c. isAvailable c \<and> 0 < stockQuantity c) data"
  by (auto simp: placeOrder_def canPlaceOrder_def Let_def orderPlacedAlert_def pressViewOrders_def
        pressNewOrder_def loadCylinders_def split: if_splits api_outcome.splits option.splits)

theorem placeOrder_success_witness:
  "userId customer = Some ''42'' \<and> truthy_token (token customer)
   \<and> truthy (canPlaceOrder exactRuntime filledScreen)
   \<and> placeOrder exactRuntime customer (ApiResolved \<lparr>orderNumber = ''A17'', totalAmount = 190000\<rparr>)
         (ApiResolved []) filledScreen =
       (filledScreen\<lparr>loading := False\<rparr>,
        [ApiCreateOrder (CreateOrderPayload ''42'' [(''cyl-6kg'', 2)] ''Plot 5, Kampala Road''
                           (Fin 0.3476) (Fin 32.5825) (Some ''Call on arrival'')),
         Alert ''Order Placed!''
           (''Order #A17 placed successfully!'' @ [CHR 0x0A] @ ''Total: UGX 190000'')
           [''View Orders'', ''New Order'']])
   \<and> fst (pressNewOrder (token customer) (ApiResolved [kilo6, kilo13]) filledScreen) =
       filledScreen\<lparr>cart := [], instructions := [], cylinders := [kilo6], error := [],
                    loading := False\<rparr>"
  using placeOrder_success
          [of customer "''42''" exactRuntime filledScreen
              "\<lparr>orderNumber = ''A17'', totalAmount = 190000\<rparr>" "ApiResolved []" filledScreen
              "ApiResolved [kilo6, kilo13]" "[kilo6, kilo13]"]
        filledScreen_placed
  by (simp add: customer_def truthy_token_def pressNewOrder_def loadCylinders_def kilo6_def
        kilo13_def filledScreen_gate)

text \<open>
  Claim C7 as stated, with the cart cleared by every successful placement, fails: after
  the alert, and after \<^verbatim>\<open>View Orders\<close>, the cart of the filled form still holds its line.
\<close>

theorem placeOrder_success_keeps_cart:
  "cart filledScreen = [cartItem kilo6 2]
   \<and> cart (fst (placeOrder exactRuntime customer
                   (ApiResolved \<lparr>orderNumber = ''A17'', totalAmount = 190000\<rparr>)
                   (ApiResolved []) filledScreen)) = [cartItem kilo6 2]
   \<and> cart (fst (pressViewOrders
                   (fst (placeOrder exactRuntime customer
                           (ApiResolved \<lparr>orderNumber = ''A17'', totalAmount = 190000\<rparr>)
                           (ApiResolved []) filledScreen)))) \<noteq> []"
  by (simp add: filledScreen_placed pressViewOrders_def filledScreen_fields)

subsection \<open>The address from the reverse geocoder\<close>

lemma trim_self:
  assumes "s \<noteq> []" "\<not> isWhiteSpace (hd s)" "\<not> isWhiteSpace (last s)"
  shows "trim s = s"
proof -
  from assms have "dropWhile isWhiteSpace s = s"
    by (cases s) simp_all
  moreover from assms have "dropWhile isWhiteSpace (rev s) = rev s"
    by (cases s rule: rev_cases) simp_all
  ultimately show ?thesis
    by (simp add: trim_def)
qed

lemma filterBoolean_nonempty: "p \<in> set (filterBoolean ps) \<Longrightarrow> p \<noteq> []"
  by (induction ps rule: filterBoolean.induct) (auto split: if_splits)

lemma filterBoolean_empty_iff:
  "filterBoolean ps = [] \<longleftrightarrow> list_all (\<lambda>p. p = None \<or> p = Some []) ps"
  by (induction ps rule: filterBoolean.induct) auto

lemma join_last:
  "ps \<noteq> [] \<Longrightarrow> last ps \<noteq> [] \<Longrightarrow> join sep ps \<noteq> [] \<and> last (join sep ps) = last (last ps)"
  by (induction sep ps rule: join.induct) auto

lemma join_hd: "ps \<noteq> [] \<Longrightarrow> hd ps \<noteq> [] \<Longrightarrow> hd (join sep ps) = hd (hd ps)"
  by (induction sep ps rule: join.induct) auto

lemma latLng_example:
  "latLngText rt (Fin 0.35) (Fin 32.58) = ''Lat: 0.3500, Lng: 32.5800''"
  by (simp add: latLngText_def toFixed_def)

lemma latLng_example_doubles:
  "latLngText rt (Fin (3152519739159347 / 9007199254740992))
                 (Fin (2292613685308293 / 70368744177664)) = ''Lat: 0.3500, Lng: 32.5800''"
  by (simp add: latLngText_def toFixed_def)

text \<open>
  Claim C8, as the code has it. With at least one result, the address is the non-empty
  parts of the first result (name, street, city, region, postal code, country, in this
  order) joined with a comma and a space, and then trimmed; when nothing is left after
  trimming, it is \<^verbatim>\<open>Lat: <lat to 4 decimals>, Lng: <lng to 4 decimals>\<close>. So
  \<^item> when the first kept part does not start and the last kept part does not end with
    white space, the address is the joined parts as they are;
  \<^item> when every part is missing or empty, the address is the \<^verbatim>\<open>Lat/Lng\<close> text;
  \<^item> with no result, and when the geocoder throws, the address is the \<^verbatim>\<open>Lat/Lng\<close> text.

  For \<open>(0.35, 32.58)\<close> that text is \<^verbatim>\<open>Lat: 0.3500, Lng: 32.5800\<close>, for the decimal values
  and for the two doubles that the literals \<^verbatim>\<open>0.35\<close> and \<^verbatim>\<open>32.58\<close> denote.
\<close>

theorem handleReverseGeocode_address:
  "deliveryAddress (fst (handleReverseGeocode rt lat lng (GeocodeResults (result # rest)) s)) =
     (if trim (join '', '' (filterBoolean [name result, street result, city result, region result,
                                           postalCode result, country result])) = []
      then ''Lat: '' @ toFixed rt 4 lat @ '', Lng: '' @ toFixed rt 4 lng
      else trim (join '', '' (filterBoolean [name result, street result, city result, region result,
                                             postalCode result, country result])))
   \<and> (filterBoolean [name result, street result, city result, region result,
                      postalCode result, country result] = p # ps
        \<and> \<not> isWhiteSpace (hd p) \<and> \<not> isWhiteSpace (last (last (p # ps)))
      \<longrightarrow> deliveryAddress (fst (handleReverseGeocode rt lat lng (GeocodeResults (result # rest)) s))
            = join '', '' (p # ps))
   \<and> (list_all (\<lambda>part. part = None \<or> part = Some [])
         [name result, street result, city result, region result, postalCode result, country result]
      \<longrightarrow> deliveryAddress (fst (handleReverseGeocode rt lat lng (GeocodeResults (result # rest)) s))
            = ''Lat: '' @ toFixed rt 4 lat @ '', Lng: '' @ toFixed rt 4 lng)
   \<and> deliveryAddress (fst (handleReverseGeocode rt lat lng (GeocodeResults []) s))
       = ''Lat: '' @ toFixed rt 4 lat @ '', Lng: '' @ toFixed rt 4 lng
   \<and> deliveryAddress (fst (handleReverseGeocode rt lat lng GeocodeRejected s))
       = ''Lat: '' @ toFixed rt 4 lat @ '', Lng: '' @ toFixed rt 4 lng
   \<and> deliveryAddress (fst (handleReverseGeocode rt (Fin 0.35) (Fin 32.58) (GeocodeResults []) s))
       = ''Lat: 0.3500, Lng: 32.5800''
   \<and> deliveryAddress
        (fst (handleReverseGeocode rt (Fin (3152519739159347 / 9007199254740992))
                (Fin (2292613685308293 / 70368744177664)) (GeocodeResults []) s))
       = ''Lat: 0.3500, Lng: 32.5800''"
proof -
  let ?parts = "filterBoolean [name result, street result, city result, region result,
                               postalCode result, country result]"
  let ?call = "handleReverseGeocode rt lat lng (GeocodeResults (result # rest)) s"
  have general: "deliveryAddress (fst ?call) =
      (if trim (join '', '' ?parts) = [] then latLngText rt lat lng else trim (join '', '' ?parts))"
    by (simp add: handleReverseGeocode_def Let_def)
  have plain: "deliveryAddress (fst ?call) = join '', '' (p # ps)"
    if "?parts = p # ps \<and> \<not> isWhiteSpace (hd p) \<and> \<not> isWhiteSpace (last (last (p # ps)))"
  proof -
    from that have "p \<in> set ?parts" "last (p # ps) \<in> set ?parts"
      by (simp, metis last_in_set list.distinct(1))
    then have ne: "p \<noteq> []" "last (p # ps) \<noteq> []"
      using filterBoolean_nonempty by blast+
    then have j: "join '', '' (p # ps) \<noteq> []" "last (join '', '' (p # ps)) = last (last (p # ps))"
      using join_last [of "p # ps" "'', ''"] by simp_all
    from ne have "hd (join '', '' (p # ps)) = hd p"
      using join_hd [of "p # ps" "'', ''"] by simp
    with that j have "trim (join '', '' (p # ps)) = join '', '' (p # ps)"
      using trim_self [of "join '', '' (p # ps)"] by simp
    with that general j show ?thesis
      by simp
  qed
  have blank: "deliveryAddress (fst ?call) = latLngText rt lat lng"
    if "list_all (\<lambda>part. part = None \<or> part = Some [])
         [name result, street result, city result, region result, postalCode result, country result]"
  proof -
    from that have "?parts = []"
      by (simp only: filterBoolean_empty_iff)
    with general show ?thesis
      by (simp add: trim_def)
  qed
  show ?thesis
    using general plain blank latLng_example [of rt] latLng_example_doubles [of rt]
    by (simp add: handleReverseGeocode_def latLngText_def)
qed

lemmas geocode_eval =
  handleReverseGeocode_def latLngText_def toFixed_def trim_def isWhiteSpace_def

theorem handleReverseGeocode_address_witness:
  "filterBoolean [name plot5, street plot5, city plot5, region plot5, postalCode plot5, country plot5]
     = [''Plot 5'', ''Kampala Road'', ''Kampala'', ''Uganda'']
   \<and> \<not> isWhiteSpace (hd ''Plot 5'') \<and> \<not> isWhiteSpace (last ''Uganda'')
   \<and> deliveryAddress (fst (handleReverseGeocode exactRuntime (Fin 0.35) (Fin 32.58)
                              (GeocodeResults [plot5]) freshScreen))
       = ''Plot 5, Kampala Road, Kampala, Uganda''
   \<and> list_all (\<lambda>part. part = None \<or> part = Some [])
        [name nowhere, street nowhere, city nowhere, region nowhere, postalCode nowhere,
         country nowhere]
   \<and> deliveryAddress (fst (handleReverseGeocode exactRuntime (Fin 0.35) (Fin 32.58)
                              (GeocodeResults [nowhere]) freshScreen))
       = ''Lat: 0.3500, Lng: 32.5800''
   \<and> deliveryAddress (fst (handleReverseGeocode exactRuntime (Fin (- 1.28333)) (Fin 36.81667)
                              GeocodeRejected freshScreen))
       = ''Lat: -1.2833, Lng: 36.8167''"
  using handleReverseGeocode_address
          [of exactRuntime "Fin 0.35" "Fin 32.58" plot5 "[]" freshScreen "''Plot 5''"
              "[''Kampala Road'', ''Kampala'', ''Uganda'']"]
        handleReverseGeocode_address
          [of exactRuntime "Fin 0.35" "Fin 32.58" nowhere "[]" freshScreen]
  by (simp add: plot5_def nowhere_def geocode_eval)

text \<open>
  Claim C8 as stated, with the address equal to the joined parts, fails: the joined
  string is trimmed, so a name with a leading space loses it.
\<close>

theorem handleReverseGeocode_trims_address:
  "join '', '' (filterBoolean [Some '' Plot 5'', None, Some ''Kampala'', None, Some [], None])
     = '' Plot 5, Kampala''
   \<and> deliveryAddress
        (fst (handleReverseGeocode exactRuntime (Fin 0.35) (Fin 32.58)
                (GeocodeResults [\<lparr>name = Some '' Plot 5'', street = None, city = Some ''Kampala'',
                                  region = None, postalCode = Some [], country = None\<rparr>])
                freshScreen))
     = ''Plot 5, Kampala''"
  by (simp add: geocode_eval)

text \<open>A part of white space only is kept by the filter and lost by the trimming.\<close>

lemma handleReverseGeocode_blank_part_falls_back:
  "filterBoolean [Some '' '', None, None, None, None, None] = ['' '']
   \<and> deliveryAddress
        (fst (handleReverseGeocode exactRuntime (Fin 0.35) (Fin 32.58)
                (GeocodeResults [\<lparr>name = Some '' '', street = None, city = None,
                                  region = None, postalCode = None, country = None\<rparr>])
                freshScreen))
     = ''Lat: 0.3500, Lng: 32.5800''"
  by (simp add: geocode_eval)

end
